theory Spec2Isabelle
  imports Complex_Main
begin

section \<open>Cold-room monitor: numbers and text\<close>

text \<open>
  The Python sources compute with floats (IEEE 754 binary64). Here a float is the real
  number it denotes, and every arithmetic operation of the analyzer rounds its exact result
  to the nearest float, ties to the even significand, as the hardware does. Infinities and
  not-a-number are not values of the model. Where a number is only read, stored or printed,
  a decimal such as 3.44 stands for the float nearest to it, which prints as this decimal.
  Text is a list of bytes (UTF-8), so the degree sign is two bytes.
\<close>

definition digit_char :: "nat \<Rightarrow> char" where
  "digit_char d = ''0123456789'' ! (d mod 10)"

fun str_nat :: "nat \<Rightarrow> string" where
  "str_nat n = (if n < 10 then [digit_char n] else str_nat (n div 10) @ [digit_char (n mod 10)])"

declare str_nat.simps [simp del]

text \<open>\<open>str(i)\<close> and \<open>f"{i}"\<close> for a Python int.\<close>

definition str_int :: "int \<Rightarrow> string" where
  "str_int i = (if i < 0 then ''-'' @ str_nat (nat (- i)) else str_nat (nat i))"

text \<open>Rounding to the nearest integer, ties to the even one (Python's \<open>round\<close> and \<open>.1f\<close>).\<close>

definition round_half_even :: "real \<Rightarrow> int" where
  "round_half_even x =
     (let f = \<lfloor>x\<rfloor>; d = x - of_int f
      in if d < 1 / 2 then f else if 1 / 2 < d then f + 1 else if even f then f else f + 1)"

text \<open>
  Rounding a non-negative real to binary64. A float is an integer below \<open>2^53\<close> times a
  power of two that is at least \<open>2^-1074\<close>. \<open>rnd_up\<close> doubles a number below \<open>2^52\<close> until it
  reaches \<open>2^52\<close>, at most 1074 times (after that the spacing of the subnormal floats is
  reached), rounds it to an integer and halves it back. \<open>rnd_down\<close> halves a number from
  \<open>2^53\<close> on until it is below \<open>2^53\<close>, at most 971 times, rounds and doubles back; a number
  that is still too large then is at least \<open>2^1024\<close>, beyond the largest float, and is left
  as it is, where the floats have infinity (it compares with every float as infinity
  does).
\<close>

fun rnd_up :: "nat \<Rightarrow> real \<Rightarrow> real" where
  "rnd_up 0 x = of_int (round_half_even x)"
| "rnd_up (Suc k) x =
     (if 2 ^ 52 \<le> x then of_int (round_half_even x) else rnd_up k (2 * x) / 2)"

fun rnd_down :: "nat \<Rightarrow> real \<Rightarrow> real" where
  "rnd_down 0 x = (if x < 2 ^ 53 then of_int (round_half_even x) else x)"
| "rnd_down (Suc k) x =
     (if x < 2 ^ 53 then of_int (round_half_even x) else rnd_down k (x / 2) * 2)"

definition fl :: "real \<Rightarrow> real" where
  "fl x = sgn x * (if \<bar>x\<bar> < 2 ^ 53 then rnd_up 1074 \<bar>x\<bar> else rnd_down 971 \<bar>x\<bar>)"

text \<open>The four operations on floats: the exact result, rounded. A decimal literal of the
  source such as \<open>0.1\<close> is the float nearest to it, \<open>fl 0.1\<close>.\<close>

definition fadd :: "real \<Rightarrow> real \<Rightarrow> real" where
  "fadd x y = fl (x + y)"

definition fsub :: "real \<Rightarrow> real \<Rightarrow> real" where
  "fsub x y = fl (x - y)"

definition fmul :: "real \<Rightarrow> real \<Rightarrow> real" where
  "fmul x y = fl (x * y)"

definition fdiv :: "real \<Rightarrow> real \<Rightarrow> real" where
  "fdiv x y = fl (x / y)"

text \<open>\<open>round(x, 1)\<close>: the decimal with one fractional digit nearest to \<open>x\<close>, ties to the
  even digit. Python returns the float nearest to this decimal, which prints as it; the
  decimal stands for that float.\<close>

definition round1 :: "real \<Rightarrow> real" where
  "round1 x = of_int (round_half_even (x * 10)) / 10"

text \<open>\<open>f"{x:.1f}"\<close>: sign, integer digits, a point and exactly one fractional digit.\<close>

definition fmt_1f :: "real \<Rightarrow> string" where
  "fmt_1f x =
     (let q = nat (round_half_even (\<bar>x\<bar> * 10))
      in (if x < 0 then ''-'' else []) @ str_nat (q div 10) @ ''.'' @ [digit_char (q mod 10)])"

text \<open>
  \<open>f"{x}"\<close> for a float \<open>x\<close>, which is \<open>repr(x)\<close>: the shortest decimal numeral that reads
  back as \<open>x\<close>, with at least one fractional digit. The model prints the decimal expansion
  of its argument, cut after 17 fractional digits: this is \<open>repr\<close> of the float for which
  the argument stands when the argument is a decimal with few digits (4.5, 150, 3.44).
  Exponent notation (magnitudes from \<open>1e16\<close> and below \<open>1e-4\<close>) is not modelled.
\<close>

fun frac_digits :: "nat \<Rightarrow> real \<Rightarrow> string" where
  "frac_digits 0 r = []"
| "frac_digits (Suc k) r =
     (let d = nat \<lfloor>r * 10\<rfloor>; r' = r * 10 - real d
      in digit_char d # (if r' = 0 then [] else frac_digits k r'))"

definition str_float :: "real \<Rightarrow> string" where
  "str_float x =
     (if x < 0 then ''-'' else []) @ str_nat (nat \<lfloor>\<bar>x\<bar>\<rfloor>) @ ''.'' @ frac_digits 17 (frac \<bar>x\<bar>)"

text \<open>\<open>s.startswith(p)\<close> and \<open>p in s\<close> for strings.\<close>

definition startswith :: "string \<Rightarrow> string \<Rightarrow> bool" where
  "startswith s p = (take (length p) s = p)"

fun contains :: "string \<Rightarrow> string \<Rightarrow> bool" where
  "contains [] p = (p = [])"
| "contains (c # s) p = (if startswith (c # s) p then True else contains s p)"

text \<open>A numeral written to one decimal place: digits, a point, one digit.\<close>

definition is_digit :: "char \<Rightarrow> bool" where
  "is_digit c = (c \<in> set ''0123456789'')"

definition one_decimal :: "string \<Rightarrow> bool" where
  "one_decimal s =
     (case rev s of
        d # p # ds \<Rightarrow> is_digit d \<and> p = CHR ''.'' \<and> ds \<noteq> [] \<and> list_all is_digit ds
      | _ \<Rightarrow> False)"

text \<open>The degree sign as \<open>delta.py\<close>, \<open>main3.py\<close> and \<open>main5.py\<close> have it (U+00B0), and as
  \<open>main6.py\<close> has it: the same two bytes read in another encoding and saved again
  (U+00AC U+221E).\<close>

definition deg :: string where
  "deg = [CHR 0xC2, CHR 0xB0]"

definition deg_main6 :: string where
  "deg_main6 = [CHR 0xC2, CHR 0xAC, CHR 0xE2, CHR 0x88, CHR 0x9E]"

section \<open>The analyzer: \<open>predict_spoilage\<close> and \<open>detect_anomaly\<close>\<close>

text \<open>
  \<open>external_temp\<close> is \<open>None\<close> or a number. The test \<open>external_temp and external_temp > 25\<close>
  is false for \<open>None\<close> and for zero (both falsy in Python).
\<close>

definition truthy :: "real option \<Rightarrow> bool" where
  "truthy v = (case v of None \<Rightarrow> False | Some x \<Rightarrow> x \<noteq> 0)"

text \<open>The accumulator \<open>risk_score\<close> of \<open>predict_spoilage\<close>, statement by statement, each
  operation in float arithmetic (\<open>abs\<close> and the comparisons are exact).
  The debugging \<open>print\<close> of the last branch is left out.\<close>

definition risk_score :: "real \<Rightarrow> real \<Rightarrow> real option \<Rightarrow> real" where
  "risk_score temperature humidity external_temp =
     (let s0 = 0;
          s1 = (if temperature > 4 then fadd s0 (fmul (fsub temperature 4) 10) else s0);
          s2 = (if temperature < 0 then fadd s1 (fmul \<bar>temperature\<bar> 15) else s1);
          s3 = (if humidity > 95 then fadd s2 (fmul (fsub humidity 95) 5) else s2);
          s4 = (if humidity < 85 then fadd s3 (fmul (fsub 85 humidity) 5) else s3)
      in case external_temp of
           None \<Rightarrow> s4
         | Some x \<Rightarrow>
             if truthy (Some x) \<and> x > 25 then fadd s4 (fmul (fsub x 25) 1.5) else s4)"

definition predict_spoilage :: "real \<Rightarrow> real \<Rightarrow> real option \<Rightarrow> string" where
  "predict_spoilage temperature humidity external_temp =
     (let s = risk_score temperature humidity external_temp
      in if s > 70 then ''High'' else if s > 30 then ''Medium'' else ''Low'')"

definition NORMAL_TEMP_MIN :: int where "NORMAL_TEMP_MIN = 0"
definition NORMAL_TEMP_MAX_BASE :: int where "NORMAL_TEMP_MAX_BASE = 4"
definition NORMAL_HUMIDITY_MIN :: int where "NORMAL_HUMIDITY_MIN = 90"
definition NORMAL_HUMIDITY_MAX :: int where "NORMAL_HUMIDITY_MAX = 95"

definition temp_strain_allowance :: "real option \<Rightarrow> real" where
  "temp_strain_allowance external_temp =
     (case external_temp of
        None \<Rightarrow> 0
      | Some x \<Rightarrow>
          if truthy (Some x) \<and> x > 20 then fmul (fdiv (fsub x 20) 5) (fl 0.1) else 0)"

definition NORMAL_TEMP_MAX :: "real option \<Rightarrow> real" where
  "NORMAL_TEMP_MAX external_temp =
     fadd (of_int NORMAL_TEMP_MAX_BASE) (temp_strain_allowance external_temp)"

text \<open>\<open>detect_anomaly\<close> of \<open>delta.py\<close> (the same text is in \<open>main3.py\<close> and \<open>main5.py\<close>).\<close>

definition detect_anomaly :: "real \<Rightarrow> real \<Rightarrow> real option \<Rightarrow> bool \<times> string" where
  "detect_anomaly temperature humidity external_temp =
     (if \<not> (of_int NORMAL_TEMP_MIN \<le> temperature \<and> temperature \<le> NORMAL_TEMP_MAX external_temp)
      then (True, ''Temperature '' @ str_float temperature @ deg
                  @ ''C is out of the acceptable range ('' @ fmt_1f (of_int NORMAL_TEMP_MIN) @ deg
                  @ ''C - '' @ fmt_1f (NORMAL_TEMP_MAX external_temp) @ deg @ ''C).'')
      else if \<not> (of_int NORMAL_HUMIDITY_MIN \<le> humidity \<and> humidity \<le> of_int NORMAL_HUMIDITY_MAX)
      then (True, ''Humidity '' @ str_float humidity
                  @ ''% is out of the acceptable range ('' @ str_int NORMAL_HUMIDITY_MIN
                  @ ''% - '' @ str_int NORMAL_HUMIDITY_MAX @ ''%).'')
      else (False, ''Conditions are Normal (Max Temp adjusted to ''
                  @ fmt_1f (NORMAL_TEMP_MAX external_temp) @ deg @ ''C due to weather)''))"

text \<open>\<open>detect_anomaly\<close> of \<open>main6.py\<close>: the same function, with the other degree sign.\<close>

definition detect_anomaly_main6 :: "real \<Rightarrow> real \<Rightarrow> real option \<Rightarrow> bool \<times> string" where
  "detect_anomaly_main6 temperature humidity external_temp =
     (if \<not> (of_int NORMAL_TEMP_MIN \<le> temperature \<and> temperature \<le> NORMAL_TEMP_MAX external_temp)
      then (True, ''Temperature '' @ str_float temperature @ deg_main6
                  @ ''C is out of the acceptable range ('' @ fmt_1f (of_int NORMAL_TEMP_MIN) @ deg_main6
                  @ ''C - '' @ fmt_1f (NORMAL_TEMP_MAX external_temp) @ deg_main6 @ ''C).'')
      else if \<not> (of_int NORMAL_HUMIDITY_MIN \<le> humidity \<and> humidity \<le> of_int NORMAL_HUMIDITY_MAX)
      then (True, ''Humidity '' @ str_float humidity
                  @ ''% is out of the acceptable range ('' @ str_int NORMAL_HUMIDITY_MIN
                  @ ''% - '' @ str_int NORMAL_HUMIDITY_MAX @ ''%).'')
      else (False, ''Conditions are Normal (Max Temp adjusted to ''
                  @ fmt_1f (NORMAL_TEMP_MAX external_temp) @ deg_main6 @ ''C due to weather)''))"

section \<open>Sensor acquisition: \<open>_read_ds18b20_temp\<close> and \<open>SensorReader.read\<close>\<close>

text \<open>Exceptions are values. Every class below is a subclass of Python's \<open>Exception\<close>,
  so \<open>except Exception\<close> catches each of them.\<close>

datatype exc =
  RuntimeError | ValueError | OverflowError | OSError | AttributeError | KeyError
  | SMTPException | SQLAlchemyError

subsection \<open>String operations of Python used by the 1-Wire parser\<close>

definition nl :: char where
  "nl = CHR 0x0A"

definition is_space :: "char \<Rightarrow> bool" where
  "is_space c =
     (c \<in> set [CHR 0x09, CHR 0x0A, CHR 0x0B, CHR 0x0C, CHR 0x0D,
               CHR 0x1C, CHR 0x1D, CHR 0x1E, CHR 0x1F, CHR 0x20])"

text \<open>\<open>s.strip()\<close>, \<open>s.split('\n')\<close>, \<open>s.endswith(p)\<close>, \<open>s.find(p)\<close>.\<close>

definition py_strip :: "string \<Rightarrow> string" where
  "py_strip s = rev (dropWhile is_space (rev (dropWhile is_space s)))"

fun split_on :: "char \<Rightarrow> string \<Rightarrow> string list" where
  "split_on c [] = [[]]"
| "split_on c (x # xs) =
     (if x = c then [] # split_on c xs
      else (case split_on c xs of [] \<Rightarrow> [[x]] | l # ls \<Rightarrow> (x # l) # ls))"

definition endswith :: "string \<Rightarrow> string \<Rightarrow> bool" where
  "endswith s p = startswith (rev s) (rev p)"

fun str_find :: "string \<Rightarrow> string \<Rightarrow> int" where
  "str_find [] p = (if p = [] then 0 else - 1)"
| "str_find (c # s) p =
     (if startswith (c # s) p then 0
      else (let r = str_find s p in if r = - 1 then - 1 else r + 1))"

text \<open>\<open>int(s)\<close> in base ten: surrounding white space, an optional sign, then digits, where
  single underscores may separate digits. \<open>None\<close> stands for the \<open>ValueError\<close>.\<close>

definition digit_val :: "char \<Rightarrow> nat" where
  "digit_val c = length (takeWhile (\<lambda>d. d \<noteq> c) ''0123456789'')"

fun digits_ok :: "string \<Rightarrow> bool" where
  "digits_ok [] = False"
| "digits_ok [c] = is_digit c"
| "digits_ok (c # d # r) =
     (if is_digit c then (if d = CHR ''_'' then digits_ok r else digits_ok (d # r)) else False)"

definition nat_of_digits :: "string \<Rightarrow> nat" where
  "nat_of_digits ds = foldl (\<lambda>n c. 10 * n + digit_val c) 0 ds"

definition py_int :: "string \<Rightarrow> int option" where
  "py_int s =
     (let t = py_strip s;
          neg = (case t of [] \<Rightarrow> False | c # r \<Rightarrow> c = CHR ''-'');
          body = (case t of [] \<Rightarrow> [] | c # r \<Rightarrow> if c = CHR ''-'' then r else if c = CHR ''+'' then r else t)
      in if digits_ok body
         then Some ((if neg then - 1 else 1) * int (nat_of_digits (filter is_digit body)))
         else None)"

subsection \<open>The 1-Wire file system\<close>

text \<open>What \<open>/sys/bus/w1/devices/\<close> holds at the time of a read: whether the directory
  exists, what \<open>os.listdir\<close> gives (or raises), and what reading
  \<open>\<langle>device\<rangle>/w1_slave\<close> gives (or raises).\<close>

record w1_fs =
  isdir :: bool
  listdir :: "exc + string list"
  w1_slave :: "string \<Rightarrow> exc + string"

text \<open>\<open>_read_ds18b20_temp\<close> of \<open>main5.py\<close>. The body is inside \<open>try\<close>; any exception
  is reported and turned into \<open>None\<close>.\<close>

definition read_ds18b20_body_main5 :: "w1_fs \<Rightarrow> exc + real option" where
  "read_ds18b20_body_main5 fs =
     (if \<not> isdir fs then Inr None
      else case listdir fs of
        Inl e \<Rightarrow> Inl e
      | Inr names \<Rightarrow>
          (case filter (\<lambda>d. startswith d ''28-'') names of
             [] \<Rightarrow> Inr None
           | d0 # _ \<Rightarrow>
               (case w1_slave fs d0 of
                  Inl e \<Rightarrow> Inl e
                | Inr content \<Rightarrow>
                    (let lines = split_on nl (py_strip content)
                     in if length lines < 2 then Inr None
                        else if \<not> endswith (py_strip (lines ! 0)) ''YES'' then Inr None
                        else let pos = str_find (lines ! 1) ''t=''
                             in if pos = - 1 then Inr None
                                else case py_int (drop (nat (pos + 2)) (lines ! 1)) of
                                       None \<Rightarrow> Inl ValueError
                                     | Some n \<Rightarrow> Inr (Some (of_int n / 1000.0))))))"

definition read_ds18b20_temp_main5 :: "w1_fs \<Rightarrow> real option" where
  "read_ds18b20_temp_main5 fs =
     (case read_ds18b20_body_main5 fs of Inl e \<Rightarrow> None | Inr v \<Rightarrow> v)"

text \<open>\<open>_read_ds18b20_temp\<close> of \<open>delta.py\<close>. There is no \<open>isdir\<close> test, so a missing
  directory makes \<open>os.listdir\<close> raise. After the file is read, \<open>lines\<close> is the list that
  \<open>split\<close> returns, and the next statement is \<open>lines.endswith('YES')\<close>: a list has no
  attribute \<open>endswith\<close>, so \<open>AttributeError\<close> is raised there, and the statements after it
  are never reached.\<close>

definition read_ds18b20_body :: "w1_fs \<Rightarrow> exc + real option" where
  "read_ds18b20_body fs =
     (case listdir fs of
        Inl e \<Rightarrow> Inl e
      | Inr names \<Rightarrow>
          (case filter (\<lambda>d. startswith d ''28-'') names of
             [] \<Rightarrow> Inr None
           | d0 # _ \<Rightarrow>
               (case w1_slave fs d0 of
                  Inl e \<Rightarrow> Inl e
                | Inr content \<Rightarrow>
                    (let lines = split_on nl (py_strip content)
                     in Inl AttributeError))))"

definition read_ds18b20_temp :: "w1_fs \<Rightarrow> real option" where
  "read_ds18b20_temp fs =
     (case read_ds18b20_body fs of Inl e \<Rightarrow> None | Inr v \<Rightarrow> v)"

subsection \<open>\<open>SensorReader.read\<close>\<close>

text \<open>What the hardware and the platform do in one attempt: the two DHT22 property reads,
  each giving a number, \<open>None\<close> or an exception, the state of the 1-Wire file system, and
  the exception that \<open>time.sleep\<close> raises for a duration, if any. Python raises
  \<open>ValueError\<close> for a negative duration and \<open>OverflowError\<close> for one that it cannot convert;
  which other durations are refused depends on the interpreter and the operating system.\<close>

record hw_attempt =
  dht_humidity :: "exc + real option"
  dht_temperature :: "exc + real option"
  w1 :: w1_fs
  attempt_sleep :: "real \<Rightarrow> exc option"

text \<open>The body of the \<open>try\<close> in the loop: \<open>Some (temp, hum)\<close> when the attempt reaches
  \<open>break\<close>, \<open>None\<close> when an exception was swallowed or a value was missing. The first
  argument is the \<open>_read_ds18b20_temp\<close> of the file at hand.\<close>

definition attempt_values ::
  "(w1_fs \<Rightarrow> real option) \<Rightarrow> bool \<Rightarrow> hw_attempt \<Rightarrow> (real \<times> real) option" where
  "attempt_values ds prefer_ds18b20 a =
     (case dht_humidity a of
        Inl e \<Rightarrow> None
      | Inr hum \<Rightarrow>
          (case dht_temperature a of
             Inl e \<Rightarrow> None
           | Inr temp0 \<Rightarrow>
               (let temp = (if prefer_ds18b20
                            then (case ds (w1 a) of None \<Rightarrow> temp0 | Some t_ds \<Rightarrow> Some t_ds)
                            else temp0)
                in case hum of
                     None \<Rightarrow> None
                   | Some h \<Rightarrow> (case temp of None \<Rightarrow> None | Some t \<Rightarrow> Some (t, h)))))"

text \<open>The \<open>for\<close> loop over \<open>range(max(1, retries))\<close>: \<open>k\<close> iterations are left, \<open>i\<close> attempts
  have been made, \<open>sl\<close> lists the arguments of the calls of \<open>time.sleep\<close> that returned so
  far. The call of \<open>time.sleep\<close> is outside the \<open>try\<close>, so an exception of it leaves
  \<open>read\<close>.\<close>

fun read_loop ::
  "(w1_fs \<Rightarrow> real option) \<Rightarrow> bool \<Rightarrow> real \<Rightarrow> (nat \<Rightarrow> hw_attempt) \<Rightarrow> nat \<Rightarrow> nat \<Rightarrow> real list
   \<Rightarrow> (exc + (real \<times> real) option) \<times> nat \<times> real list" where
  "read_loop ds p delay_s hw 0 i sl = (Inr None, i, sl)"
| "read_loop ds p delay_s hw (Suc k) i sl =
     (case attempt_values ds p (hw i) of
        Some v \<Rightarrow> (Inr (Some v), Suc i, sl)
      | None \<Rightarrow>
          (case attempt_sleep (hw i) delay_s of
             Some e \<Rightarrow> (Inl e, Suc i, sl)
           | None \<Rightarrow> read_loop ds p delay_s hw k (Suc i) (sl @ [delay_s])))"

record read_run =
  result :: "exc + real \<times> real"
  attempts :: nat
  sleeps :: "real list"

definition read_with ::
  "(w1_fs \<Rightarrow> real option) \<Rightarrow> bool \<Rightarrow> int \<Rightarrow> real \<Rightarrow> (nat \<Rightarrow> hw_attempt) \<Rightarrow> read_run" where
  "read_with ds prefer_ds18b20 retries delay_s hw =
     (case read_loop ds prefer_ds18b20 delay_s hw (nat (max 1 retries)) 0 [] of
        (Inl e, n, sl) \<Rightarrow> \<lparr>result = Inl e, attempts = n, sleeps = sl\<rparr>
      | (Inr None, n, sl) \<Rightarrow> \<lparr>result = Inl RuntimeError, attempts = n, sleeps = sl\<rparr>
      | (Inr (Some (last_temp, last_hum)), n, sl) \<Rightarrow>
          \<lparr>result = Inr (round1 last_temp, round1 last_hum), attempts = n, sleeps = sl\<rparr>)"

text \<open>\<open>SensorReader.read\<close> of \<open>delta.py\<close> and of \<open>main5.py\<close>: the same loop, each with the
  \<open>_read_ds18b20_temp\<close> of its own file. The result is \<open>(temperature, humidity)\<close>.\<close>

definition SensorReader_read :: "bool \<Rightarrow> int \<Rightarrow> real \<Rightarrow> (nat \<Rightarrow> hw_attempt) \<Rightarrow> read_run" where
  "SensorReader_read = read_with read_ds18b20_temp"

definition SensorReader_read_main5 ::
  "bool \<Rightarrow> int \<Rightarrow> real \<Rightarrow> (nat \<Rightarrow> hw_attempt) \<Rightarrow> read_run" where
  "SensorReader_read_main5 = read_with read_ds18b20_temp_main5"

section \<open>Application state, persistence, weather and notification\<close>

text \<open>What the program prints, as structured entries instead of formatted lines.\<close>

datatype log_entry =
    EmailTriggered string | EmailSkipped | EmailSent | EmailError
  | DebugSensorUnavailable | DebugTrying string | InfoInitialized string
  | DebugInitFailed string | WarnNoPin
  | WarnNotInitialized | ErrorInLoop exc | InfoLogged real real

text \<open>Rows of the two tables: \<open>SensorReading(temperature, humidity)\<close> and
  \<open>AlertLog(message)\<close>. The key and the time stamp, which the database assigns, are left
  out.\<close>

datatype row = SensorReading real real | AlertLog string

text \<open>The mutable state: the global \<open>sensor\<close> (the pin of the adopted device, or \<open>None\<close>),
  the objects added to the session and not yet committed, the rows in the database (oldest
  first), what was printed, the arguments of the \<open>time.sleep\<close> calls of the background
  loop, and how often \<open>last_background_tick\<close> was set.\<close>

record app =
  sensor :: "nat option"
  pending :: "row list"
  committed :: "row list"
  printed :: "log_entry list"
  slept :: "int list"
  ticks :: nat

definition print :: "log_entry \<Rightarrow> app \<Rightarrow> app" where
  "print e s = s\<lparr>printed := printed s @ [e]\<rparr>"

text \<open>The contract of the session that the program relies on: \<open>add\<close> queues an object,
  \<open>commit\<close> writes all queued objects or raises and writes none, \<open>rollback\<close> drops the
  queue (when \<open>rollback\<close> itself raises, the queue is left as it is).\<close>

definition session_add :: "row \<Rightarrow> app \<Rightarrow> app" where
  "session_add r s = s\<lparr>pending := pending s @ [r]\<rparr>"

definition session_commit :: "bool \<Rightarrow> app \<Rightarrow> exc + app" where
  "session_commit ok s =
     (if ok then Inr (s\<lparr>committed := committed s @ pending s, pending := []\<rparr>)
      else Inl SQLAlchemyError)"

definition session_rollback :: "bool \<Rightarrow> app \<Rightarrow> exc + app" where
  "session_rollback ok s = (if ok then Inr (s\<lparr>pending := []\<rparr>) else Inl SQLAlchemyError)"

text \<open>The outside world during one request or one cycle: what the HTTP request for the
  weather does, which SMTP steps succeed, and whether \<open>commit\<close> and \<open>rollback\<close> succeed.
  \<open>Status200 None\<close> is an answer with status 200 whose body lacks one of the keys that
  are read.\<close>

datatype http_result = RequestException | Status200 "real option" | StatusOther

record smtp =
  connect_ok :: bool
  starttls_ok :: bool
  login_ok :: bool
  sendmail_ok :: bool
  quit_ok :: bool

record services =
  http :: http_result
  smtp_env :: smtp
  commit_ok :: bool
  rollback_ok :: bool

text \<open>Settings read from the environment at start. \<open>api_key_usable\<close>: the weather key
  passes the test at the head of \<open>get_weather_forecast\<close>. \<open>creds_set\<close>: sender, receiver
  and password are all non-empty. \<open>board\<close> is \<open>None\<close> when the hardware library could not be
  imported, else it maps an attribute name to the pin of that name.\<close>

record config =
  SENSOR_AVAILABLE :: bool
  board :: "(string \<Rightarrow> nat option) option"
  DHT_GPIO_PIN :: string
  READ_INTERVAL_SEC :: int
  api_key_usable :: bool
  creds_set :: bool

subsection \<open>\<open>get_weather_forecast\<close>\<close>

text \<open>The result dictionary: either the weather with its temperature and \<open>error = None\<close>,
  or only an \<open>error\<close> text, which is never empty. Only \<open>RequestException\<close> is caught, so a
  missing key in a 200 answer leaves the function as \<open>KeyError\<close>.\<close>

datatype weather = Weather real | WeatherError

definition get_weather_forecast :: "bool \<Rightarrow> http_result \<Rightarrow> exc + weather" where
  "get_weather_forecast key_usable h =
     (if \<not> key_usable then Inr WeatherError
      else case h of
             RequestException \<Rightarrow> Inr WeatherError
           | Status200 (Some t) \<Rightarrow> Inr (Weather t)
           | Status200 None \<Rightarrow> Inl KeyError
           | StatusOther \<Rightarrow> Inr WeatherError)"

text \<open>\<open>weather.get('temperature') if weather and not weather.get('error') else None\<close>.\<close>

definition external_temp_of :: "weather \<Rightarrow> real option" where
  "external_temp_of w = (case w of Weather t \<Rightarrow> Some t | WeatherError \<Rightarrow> None)"

subsection \<open>\<open>send_email_alert\<close>\<close>

text \<open>The \<open>try\<close> and \<open>except\<close> of \<open>send_email_alert\<close>: the first component tells whether
  \<open>server\<close> was assigned, that is, whether \<open>finally\<close> will call \<open>server.quit()\<close>.\<close>

definition smtp_try :: "smtp \<Rightarrow> app \<Rightarrow> bool \<times> app" where
  "smtp_try m s =
     (if \<not> connect_ok m then (False, print EmailError s)
      else if \<not> starttls_ok m then (True, print EmailError s)
      else if \<not> login_ok m then (True, print EmailError s)
      else if \<not> sendmail_ok m then (True, print EmailError s)
      else (True, print EmailSent s))"

text \<open>\<open>main5.py\<close> and \<open>main6.py\<close>: \<open>server.quit()\<close> is itself inside \<open>try\<close> / \<open>except\<close>, so
  nothing leaves the function.\<close>

definition send_email_alert_main6 :: "bool \<Rightarrow> smtp \<Rightarrow> string \<Rightarrow> app \<Rightarrow> app" where
  "send_email_alert_main6 creds m alert_message s =
     (let s1 = print (EmailTriggered alert_message) s
      in if \<not> creds then print EmailSkipped s1 else snd (smtp_try m s1))"

text \<open>\<open>delta.py\<close> and \<open>main3.py\<close>: \<open>finally: if server: server.quit()\<close> is unguarded, so an
  exception of \<open>quit\<close> leaves the function.\<close>

definition send_email_alert :: "bool \<Rightarrow> smtp \<Rightarrow> string \<Rightarrow> app \<Rightarrow> exc option \<times> app" where
  "send_email_alert creds m alert_message s =
     (let s1 = print (EmailTriggered alert_message) s
      in if \<not> creds then (None, print EmailSkipped s1)
         else case smtp_try m s1 of
                (False, s2) \<Rightarrow> (None, s2)
              | (True, s2) \<Rightarrow> if quit_ok m then (None, s2) else (Some SMTPException, s2))"

section \<open>The manual path: \<open>add_data\<close> of \<open>delta.py\<close>\<close>

text \<open>A form field: absent (\<open>request.form[k]\<close> raises \<open>KeyError\<close>), not a number (\<open>float\<close>
  raises \<open>ValueError\<close>), or the number \<open>float\<close> returns.\<close>

datatype form_field = Missing | Unparsable | Parsed real

definition float_field :: "form_field \<Rightarrow> exc + real" where
  "float_field f =
     (case f of Missing \<Rightarrow> Inl KeyError | Unparsable \<Rightarrow> Inl ValueError | Parsed x \<Rightarrow> Inr x)"

text \<open>The answer: success, the error answer with status 400, or an exception that leaves
  the view function (raised by \<open>rollback\<close> inside the handler).\<close>

datatype response = JsonSuccess | JsonError exc | Unhandled exc

text \<open>The body of the \<open>try\<close>.\<close>

definition add_data_try ::
  "config \<Rightarrow> services \<Rightarrow> form_field \<Rightarrow> form_field \<Rightarrow> app \<Rightarrow> exc option \<times> app" where
  "add_data_try cfg sv form_temperature form_humidity s =
     (case float_field form_temperature of
        Inl e \<Rightarrow> (Some e, s)
      | Inr temp \<Rightarrow>
          (case float_field form_humidity of
             Inl e \<Rightarrow> (Some e, s)
           | Inr humidity \<Rightarrow>
               (case get_weather_forecast (api_key_usable cfg) (http sv) of
                  Inl e \<Rightarrow> (Some e, s)
                | Inr weather_data \<Rightarrow>
                    (let external_temp = external_temp_of weather_data;
                         s1 = session_add (SensorReading temp humidity) s;
                         a = detect_anomaly temp humidity external_temp
                     in if fst a
                        then (case send_email_alert (creds_set cfg) (smtp_env sv) (snd a) s1 of
                                (Some e, s2) \<Rightarrow> (Some e, s2)
                              | (None, s2) \<Rightarrow>
                                  (case session_commit (commit_ok sv)
                                          (session_add (AlertLog (snd a)) s2) of
                                     Inl e \<Rightarrow> (Some e, session_add (AlertLog (snd a)) s2)
                                   | Inr s3 \<Rightarrow> (None, s3)))
                        else (case session_commit (commit_ok sv) s1 of
                                Inl e \<Rightarrow> (Some e, s1)
                              | Inr s3 \<Rightarrow> (None, s3))))))"

definition add_data ::
  "config \<Rightarrow> services \<Rightarrow> form_field \<Rightarrow> form_field \<Rightarrow> app \<Rightarrow> response \<times> app" where
  "add_data cfg sv form_temperature form_humidity s =
     (case add_data_try cfg sv form_temperature form_humidity s of
        (None, s1) \<Rightarrow> (JsonSuccess, s1)
      | (Some e, s1) \<Rightarrow>
          (case session_rollback (rollback_ok sv) s1 of
             Inl e' \<Rightarrow> (Unhandled e', s1)
           | Inr s2 \<Rightarrow> (JsonError e, s2)))"

section \<open>The scheduled path: \<open>_try_init_sensor\<close> and \<open>_background_reader\<close> of \<open>main6.py\<close>\<close>

text \<open>\<open>s.upper()\<close> on ASCII letters.\<close>

definition upper_char :: "char \<Rightarrow> char" where
  "upper_char c =
     (case map_of (zip ''abcdefghijklmnopqrstuvwxyz'' ''ABCDEFGHIJKLMNOPQRSTUVWXYZ'') c of
        None \<Rightarrow> c | Some u \<Rightarrow> u)"

definition upper :: "string \<Rightarrow> string" where
  "upper s = map upper_char s"

definition resolve_board_pin :: "(string \<Rightarrow> nat option) option \<Rightarrow> string \<Rightarrow> nat option" where
  "resolve_board_pin brd pin_name =
     (case brd of
        None \<Rightarrow> None
      | Some attrs \<Rightarrow>
          (let name = (if \<not> startswith (upper pin_name) ''D'' then ''D17'' else pin_name)
           in case attrs (upper name) of Some pin \<Rightarrow> Some pin | None \<Rightarrow> attrs ''D17''))"

text \<open>The list \<open>candidates\<close>: the preferred pin first, then each of D4, D17, D27, D22 that
  resolves and differs from the first entry of the list.\<close>

definition add_candidate ::
  "(string \<Rightarrow> nat option) option \<Rightarrow> (string \<times> nat) list \<Rightarrow> string \<Rightarrow> (string \<times> nat) list" where
  "add_candidate brd cs name =
     (case resolve_board_pin brd name of
        None \<Rightarrow> cs
      | Some pin \<Rightarrow>
          (case cs of
             [] \<Rightarrow> cs @ [(name, pin)]
           | c # _ \<Rightarrow> if pin = snd c then cs else cs @ [(name, pin)]))"

definition candidates :: "config \<Rightarrow> (string \<times> nat) list" where
  "candidates cfg =
     foldl (add_candidate (board cfg))
       (case resolve_board_pin (board cfg) (DHT_GPIO_PIN cfg) of
          None \<Rightarrow> [] | Some pref_pin \<Rightarrow> [(''ENV'', pref_pin)])
       [''D4'', ''D17'', ''D27'', ''D22'']"

text \<open>The loop over the candidates. \<open>probe pin\<close> tells whether creating the device on
  that pin and reading its humidity and temperature once all return without an exception
  (the values read are not looked at). The first such pin becomes \<open>sensor\<close>.\<close>

fun probe_loop :: "(nat \<Rightarrow> bool) \<Rightarrow> (string \<times> nat) list \<Rightarrow> app \<Rightarrow> app" where
  "probe_loop probe [] s = print WarnNoPin s"
| "probe_loop probe (c # cs) s =
     (if probe (snd c)
      then print (InfoInitialized (fst c)) ((print (DebugTrying (fst c)) s)\<lparr>sensor := Some (snd c)\<rparr>)
      else probe_loop probe cs (print (DebugInitFailed (fst c)) (print (DebugTrying (fst c)) s)))"

definition try_init_sensor :: "config \<Rightarrow> (nat \<Rightarrow> bool) \<Rightarrow> app \<Rightarrow> app" where
  "try_init_sensor cfg probe s =
     (if \<not> SENSOR_AVAILABLE cfg then print DebugSensorUnavailable s
      else probe_loop probe (candidates cfg) s)"

text \<open>What the devices, the services and the platform do during one cycle: the outcome
  of a probe of a pin, of the two property reads of the device on a pin, and the exception
  that \<open>time.sleep\<close> raises for a duration, if any.\<close>

record cycle_env =
  probe_ok :: "nat \<Rightarrow> bool"
  humidity_of :: "nat \<Rightarrow> exc + real option"
  temperature_of :: "nat \<Rightarrow> exc + real option"
  svc :: services
  cycle_sleep :: "real \<Rightarrow> exc option"

text \<open>The body of the \<open>try\<close> of one cycle: the exception that ends it, if any, and the
  state at that point.\<close>

definition cycle_try :: "config \<Rightarrow> cycle_env \<Rightarrow> app \<Rightarrow> exc option \<times> app" where
  "cycle_try cfg ev s0 =
     (let s = (case sensor s0 of None \<Rightarrow> try_init_sensor cfg (probe_ok ev) s0 | Some d \<Rightarrow> s0)
      in case sensor s of
           None \<Rightarrow> (None, print WarnNotInitialized s)
         | Some d \<Rightarrow>
             (case humidity_of ev d of
                Inl e \<Rightarrow> (Some e, s)
              | Inr hum \<Rightarrow>
                  (case temperature_of ev d of
                     Inl e \<Rightarrow> (Some e, s)
                   | Inr temp \<Rightarrow>
                       (case hum of
                          None \<Rightarrow> (Some RuntimeError, s)
                        | Some h \<Rightarrow>
                            (case temp of
                               None \<Rightarrow> (Some RuntimeError, s)
                             | Some t \<Rightarrow>
                                 (case get_weather_forecast (api_key_usable cfg) (http (svc ev)) of
                                    Inl e \<Rightarrow> (Some e, s)
                                  | Inr weather \<Rightarrow>
                                      (let external_temp = external_temp_of weather;
                                           s1 = session_add (SensorReading t h) s;
                                           a = detect_anomaly_main6 t h external_temp;
                                           s2 = (if fst a
                                                 then send_email_alert_main6 (creds_set cfg)
                                                        (smtp_env (svc ev)) (snd a)
                                                        (session_add (AlertLog (snd a)) s1)
                                                 else s1)
                                       in case session_commit (commit_ok (svc ev)) s2 of
                                            Inl e \<Rightarrow> (Some e, s2)
                                          | Inr s3 \<Rightarrow> (None, print (InfoLogged t h) s3))))))))"

text \<open>\<open>time.sleep(d)\<close> in the background loop: the exception of the platform, or the state
  with the sleep recorded.\<close>

definition time_sleep :: "(real \<Rightarrow> exc option) \<Rightarrow> int \<Rightarrow> app \<Rightarrow> exc + app" where
  "time_sleep sl d s =
     (case sl (of_int d) of Some e \<Rightarrow> Inl e | None \<Rightarrow> Inr (s\<lparr>slept := slept s @ [d]\<rparr>))"

text \<open>One turn of \<open>while True\<close> up to \<open>finally\<close>: the tick, the \<open>try\<close>, and the handler
  (print, then \<open>rollback\<close> with its own exception swallowed).\<close>

definition cycle_body :: "config \<Rightarrow> cycle_env \<Rightarrow> app \<Rightarrow> app" where
  "cycle_body cfg ev s =
     (case cycle_try cfg ev (s\<lparr>ticks := Suc (ticks s)\<rparr>) of
        (None, s1) \<Rightarrow> s1
      | (Some e, s1) \<Rightarrow>
          (case session_rollback (rollback_ok (svc ev)) (print (ErrorInLoop e) s1) of
             Inl e' \<Rightarrow> print (ErrorInLoop e) s1
           | Inr s2 \<Rightarrow> s2))"

text \<open>The whole turn: \<open>finally\<close> sleeps the interval. \<open>Inl\<close> is an exception that leaves the
  loop; only \<open>time.sleep\<close> can raise one.\<close>

definition cycle :: "config \<Rightarrow> cycle_env \<Rightarrow> app \<Rightarrow> exc + app" where
  "cycle cfg ev s = time_sleep (cycle_sleep ev) (READ_INTERVAL_SEC cfg) (cycle_body cfg ev s)"

text \<open>The loop itself never leaves \<open>while True\<close>; the list gives the outside world for
  the first cycles, and the result is the state after them.\<close>

fun background_reader :: "config \<Rightarrow> cycle_env list \<Rightarrow> app \<Rightarrow> exc + app" where
  "background_reader cfg [] s = Inr s"
| "background_reader cfg (ev # evs) s =
     (case cycle cfg ev s of Inl e \<Rightarrow> Inl e | Inr s' \<Rightarrow> background_reader cfg evs s')"

text \<open>The specification's reading of a cycle on an adopted device \<open>d\<close>: the exception of the
  first stage that fails, in the order acquisition (a read raises, or a value is missing),
  weather request (it raises), persistence (\<open>commit\<close> raises). An error answer of the
  weather service and a failure of the notifier are not failures of the cycle.\<close>

definition stage_failure :: "config \<Rightarrow> cycle_env \<Rightarrow> nat \<Rightarrow> exc option" where
  "stage_failure cfg ev d =
     (case humidity_of ev d of
        Inl e \<Rightarrow> Some e
      | Inr hum \<Rightarrow>
          (case temperature_of ev d of
             Inl e \<Rightarrow> Some e
           | Inr temp \<Rightarrow>
               if hum = None \<or> temp = None then Some RuntimeError
               else (case get_weather_forecast (api_key_usable cfg) (http (svc ev)) of
                       Inl e \<Rightarrow> Some e
                     | Inr w \<Rightarrow> if commit_ok (svc ev) then None else Some SQLAlchemyError)))"

subsection \<open>Sample hardware for the examples\<close>

text \<open>\<open>time.sleep\<close> of CPython 3.11 on Linux, with no signal arriving, as a platform for
  the examples; \<open>now\<close> is the monotonic clock in seconds. The duration is converted to
  nanoseconds in a signed 64-bit integer, with \<open>OverflowError\<close> when it does not fit; a
  negative duration raises \<open>ValueError\<close>; the kernel refuses a deadline from 9223372036
  seconds on, which Python reports as \<open>OSError\<close>.\<close>

definition sleep_linux :: "real \<Rightarrow> real \<Rightarrow> exc option" where
  "sleep_linux now d =
     (if d * 10 ^ 9 < - (2 ^ 63) then Some OverflowError
      else if 2 ^ 63 \<le> d * 10 ^ 9 then Some OverflowError
      else if d < 0 then Some ValueError
      else if 9223372036 \<le> now + d then Some OSError
      else None)"

text \<open>The platform of the examples: the clock stands at 1000 seconds.\<close>

definition sleep_posix :: "real \<Rightarrow> exc option" where
  "sleep_posix = sleep_linux 1000"

definition sample_slave :: string where
  "sample_slave = ''72 01 4b 46 7f ff 0e 10 57 : crc=57 YES'' @ [nl]
                @ ''72 01 4b 46 7f ff 0e 10 57 t=23125'' @ [nl]"

definition w1_present :: w1_fs where
  "w1_present = \<lparr>isdir = True, listdir = Inr [''w1_bus_master1'', ''28-00000574c791''],
                w1_slave = (\<lambda>d. if d = ''28-00000574c791'' then Inr sample_slave else Inl OSError)\<rparr>"

definition w1_absent :: w1_fs where
  "w1_absent = \<lparr>isdir = False, listdir = Inl OSError, w1_slave = (\<lambda>d. Inl OSError)\<rparr>"

definition hw_good :: hw_attempt where
  "hw_good = \<lparr>dht_humidity = Inr (Some 91.96), dht_temperature = Inr (Some 3.44),
     w1 = w1_absent, attempt_sleep = sleep_posix\<rparr>"

definition hw_null :: hw_attempt where
  "hw_null = \<lparr>dht_humidity = Inr None, dht_temperature = Inr None, w1 = w1_absent,
     attempt_sleep = sleep_posix\<rparr>"

definition hw_raise :: hw_attempt where
  "hw_raise = \<lparr>dht_humidity = Inl RuntimeError, dht_temperature = Inr (Some 3.44),
     w1 = w1_absent, attempt_sleep = sleep_posix\<rparr>"

definition hw_third_ok :: "nat \<Rightarrow> hw_attempt" where
  "hw_third_ok i = (if i = 2 then hw_good else hw_null)"

definition hw_with_ds18b20 :: hw_attempt where
  "hw_with_ds18b20 = hw_good\<lparr>w1 := w1_present\<rparr>"

subsection \<open>Sample settings, services and cycles for the examples\<close>

definition app0 :: app where
  "app0 = \<lparr>sensor = None, pending = [], committed = [], printed = [], slept = [], ticks = 0\<rparr>"

definition cfg_delta :: config where
  "cfg_delta = \<lparr>SENSOR_AVAILABLE = True, board = None, DHT_GPIO_PIN = ''GPIO17'',
     READ_INTERVAL_SEC = 300, api_key_usable = False, creds_set = True\<rparr>"

definition smtp_good :: smtp where
  "smtp_good = \<lparr>connect_ok = True, starttls_ok = True, login_ok = True, sendmail_ok = True,
     quit_ok = True\<rparr>"

definition smtp_dropped :: smtp where
  "smtp_dropped = \<lparr>connect_ok = True, starttls_ok = True, login_ok = False, sendmail_ok = False,
     quit_ok = False\<rparr>"

definition smtp_down :: smtp where
  "smtp_down = \<lparr>connect_ok = False, starttls_ok = False, login_ok = False, sendmail_ok = False,
     quit_ok = False\<rparr>"

definition sv_good :: services where
  "sv_good = \<lparr>http = Status200 (Some 30), smtp_env = smtp_good, commit_ok = True, rollback_ok = True\<rparr>"

definition sv_dropped :: services where
  "sv_dropped = sv_good\<lparr>smtp_env := smtp_dropped\<rparr>"

definition board_pi :: "string \<Rightarrow> nat option" where
  "board_pi n =
     (if n = ''D4'' then Some 4 else if n = ''D17'' then Some 17
      else if n = ''D27'' then Some 27 else if n = ''D22'' then Some 22 else None)"

definition cfg_main6 :: config where
  "cfg_main6 = \<lparr>SENSOR_AVAILABLE = True, board = Some board_pi, DHT_GPIO_PIN = ''D17'',
     READ_INTERVAL_SEC = 300, api_key_usable = True, creds_set = True\<rparr>"

text \<open>The settings with an interval of ten billion seconds.\<close>

definition cfg_long :: config where
  "cfg_long = cfg_main6\<lparr>READ_INTERVAL_SEC := 10000000000\<rparr>"

definition app17 :: app where
  "app17 = app0\<lparr>sensor := Some 17\<rparr>"

definition ev_warm :: cycle_env where
  "ev_warm = \<lparr>probe_ok = (\<lambda>pin. False), humidity_of = (\<lambda>pin. Inr (Some 92)),
     temperature_of = (\<lambda>pin. Inr (Some 10)), svc = sv_good\<lparr>smtp_env := smtp_down\<rparr>,
     cycle_sleep = sleep_posix\<rparr>"

definition ev_read_fails :: cycle_env where
  "ev_read_fails = ev_warm\<lparr>humidity_of := (\<lambda>pin. Inl RuntimeError)\<rparr>"

definition ev_fallback :: cycle_env where
  "ev_fallback = ev_warm\<lparr>probe_ok := (\<lambda>pin. pin = 4)\<rparr>"

definition ev_wet :: cycle_env where
  "ev_wet = ev_warm\<lparr>humidity_of := (\<lambda>pin. Inr (Some 150)), temperature_of := (\<lambda>pin. Inr (Some 3))\<rparr>"

section \<open>Properties of float rounding\<close>

lemma round_half_even_of_int [simp]: "round_half_even (of_int m) = m"
  by (simp add: round_half_even_def)

lemma round_half_even_ge: "of_int c \<le> x \<Longrightarrow> c \<le> round_half_even x"
proof -
  assume "of_int c \<le> x"
  then have "c \<le> \<lfloor>x\<rfloor>" by (simp add: le_floor_iff)
  then show ?thesis by (simp add: round_half_even_def Let_def)
qed

lemma rnd_up_ge: "of_int c \<le> x \<Longrightarrow> of_int c \<le> rnd_up n x"
proof (induction n arbitrary: c x)
  case 0
  then show ?case using round_half_even_ge [of c x] by simp
next
  case (Suc n)
  show ?case
  proof (cases "2 ^ 52 \<le> x")
    case True
    then show ?thesis using round_half_even_ge [of c x] Suc.prems by simp
  next
    case False
    have "of_int (2 * c) \<le> 2 * x" using Suc.prems by simp
    then have "of_int (2 * c) \<le> rnd_up n (2 * x)" by (rule Suc.IH)
    then show ?thesis using False by simp
  qed
qed

lemma round_half_even_ge_52: "2 ^ 52 \<le> x \<Longrightarrow> (2 ^ 52 :: real) \<le> of_int (round_half_even x)"
proof -
  assume a: "2 ^ 52 \<le> x"
  have "(2 ^ 52 :: int) \<le> round_half_even x"
    using a by (intro round_half_even_ge) simp
  then have "(of_int (2 ^ 52) :: real) \<le> of_int (round_half_even x)"
    by (simp only: of_int_le_iff)
  then show ?thesis by simp
qed

lemma rnd_down_ge: "2 ^ 52 \<le> x \<Longrightarrow> 2 ^ 52 \<le> rnd_down n x"
proof (induction n arbitrary: x)
  case 0
  then show ?case using round_half_even_ge_52 [of x] by simp
next
  case (Suc n)
  show ?case
  proof (cases "x < 2 ^ 53")
    case True
    have "(2 ^ 52 :: real) \<le> of_int (round_half_even x)"
      using Suc.prems by (rule round_half_even_ge_52)
    then show ?thesis using True by simp
  next
    case False
    then have "2 ^ 52 \<le> x / 2" by simp
    then have "2 ^ 52 \<le> rnd_down n (x / 2)" by (rule Suc.IH)
    then show ?thesis using False by simp
  qed
qed

lemma fl_ge:
  assumes "0 \<le> c" "c \<le> 2 ^ 52" "of_int c \<le> x"
  shows "of_int c \<le> fl x"
proof (cases "x = 0")
  case True
  with assms have "c = 0" by simp
  then show ?thesis using True by (simp add: fl_def)
next
  case False
  have "(0::real) \<le> of_int c" using assms(1) by simp
  with assms(3) False have p: "0 < x" by simp
  show ?thesis
  proof (cases "x < 2 ^ 53")
    case True
    then show ?thesis using p rnd_up_ge [of c x 1074] assms by (simp add: fl_def)
  next
    case False
    then have "2 ^ 52 \<le> x" by simp
    then have "2 ^ 52 \<le> rnd_down 971 x" by (rule rnd_down_ge)
    moreover have "(of_int c :: real) \<le> of_int (2 ^ 52)"
      using assms(2) by (simp only: of_int_le_iff)
    then have "(of_int c :: real) \<le> 2 ^ 52" by simp
    ultimately show ?thesis using p False by (simp add: fl_def)
  qed
qed

lemma rnd_up_scale:
  "k \<le> n \<Longrightarrow> 2 ^ 52 \<le> x * 2 ^ k \<Longrightarrow> x * 2 ^ k < 2 ^ 53 \<Longrightarrow>
   rnd_up n x = of_int (round_half_even (x * 2 ^ k)) / 2 ^ k"
proof (induction k arbitrary: n x)
  case 0
  then show ?case by (cases n) simp_all
next
  case (Suc k)
  then obtain m where n: "n = Suc m" "k \<le> m" by (cases n) simp_all
  have xpos: "0 < x"
  proof (rule ccontr)
    assume "\<not> 0 < x"
    then have "x * 2 ^ Suc k \<le> 0" by (simp add: mult_le_0_iff)
    with Suc.prems(2) show False by simp
  qed
  have "(1::real) \<le> 2 ^ k" by simp
  then have "x * 1 \<le> x * 2 ^ k" using xpos by (intro mult_left_mono) simp_all
  then have "x * 2 \<le> x * 2 ^ Suc k" by simp
  then have lt: "\<not> 2 ^ 52 \<le> x" using Suc.prems(3) by simp
  have "rnd_up m (2 * x) = of_int (round_half_even (2 * x * 2 ^ k)) / 2 ^ k"
    using Suc.prems n by (intro Suc.IH) (simp_all add: mult.assoc mult.left_commute)
  then show ?case using lt n by (simp add: mult.assoc mult.left_commute)
qed

lemma fl_eval:
  "0 < x \<Longrightarrow> k \<le> 1074 \<Longrightarrow> 2 ^ 52 \<le> x * 2 ^ k \<Longrightarrow> x * 2 ^ k < 2 ^ 53 \<Longrightarrow>
   fl x = of_int (round_half_even (x * 2 ^ k)) / 2 ^ k"
proof -
  assume a: "0 < x" "k \<le> 1074" "2 ^ 52 \<le> x * 2 ^ k" "x * 2 ^ k < 2 ^ 53"
  have "x \<le> x * 2 ^ k" using a(1) by simp
  then have "x < 2 ^ 53" using a(4) by simp
  then show ?thesis using a rnd_up_scale [of k 1074 x] by (simp add: fl_def)
qed

lemma fl_int: "\<bar>m\<bar> < 2 ^ 53 \<Longrightarrow> fl (of_int m) = of_int m"
proof -
  assume a: "\<bar>m\<bar> < 2 ^ 53"
  have r: "rnd_up n (of_int j) = of_int j" for n j
  proof (induction n arbitrary: j)
    case 0
    show ?case by simp
  next
    case (Suc n)
    have "rnd_up n (2 * of_int j) = of_int (2 * j)"
      using Suc.IH [of "2 * j"] by simp
    then show ?case by simp
  qed
  have "(of_int \<bar>m\<bar> :: real) < of_int (2 ^ 53)"
    using a by (simp only: of_int_less_iff)
  then have "\<bar>of_int m :: real\<bar> < 2 ^ 53" by simp
  moreover have "rnd_up 1074 \<bar>of_int m\<bar> = \<bar>of_int m\<bar>"
    using r [of 1074 "\<bar>m\<bar>"] by simp
  ultimately have "fl (of_int m) = sgn (of_int m) * \<bar>of_int m :: real\<bar>"
    by (simp add: fl_def)
  then show ?thesis by (simp only: mult_sgn_abs)
qed

lemma fl_nonneg: "0 \<le> x \<Longrightarrow> 0 \<le> fl x"
  using fl_ge [of 0 x] by simp

lemma fl_minus: "fl (- x) = - fl x"
  by (simp add: fl_def)

lemma fl_numeral: "(numeral n :: int) < 2 ^ 53 \<Longrightarrow> fl (numeral n) = numeral n"
  using fl_int [of "numeral n"] by simp

lemma fl_zero [simp]: "fl 0 = 0"
  by (simp add: fl_def)

text \<open>The floats that the examples meet, as fractions.\<close>

lemma fl_tenth: "fl (1 / 10) = 3602879701896397 / 36028797018963968"
  by (rule trans [OF fl_eval [where k = 56]]) (simp_all add: round_half_even_def)

lemma fl_4_2: "fl (21 / 5) = 4728779608739021 / 1125899906842624"
  by (rule trans [OF fl_eval [where k = 50]]) (simp_all add: round_half_even_def)

lemma fl_4_6: "fl (23 / 5) = 2589569785738035 / 562949953421312"
  by (rule trans [OF fl_eval [where k = 50]]) (simp_all add: round_half_even_def)

lemma fl_84_8: "fl (424 / 5) = 5967269506265907 / 70368744177664"
  by (rule trans [OF fl_eval [where k = 46]]) (simp_all add: round_half_even_def)

lemma fl_25_65: "fl (513 / 20) = 3609916576314163 / 140737488355328"
  by (rule trans [OF fl_eval [where k = 48]]) (simp_all add: round_half_even_def)

lemma fl_4_113: "fl (4113 / 1000) = 4630826316843713 / 1125899906842624"
  by (rule trans [OF fl_eval [where k = 50]]) (simp_all add: round_half_even_def)

lemma fl_7_5: "fl (15 / 2) = 15 / 2"
  by (rule trans [OF fl_eval [where k = 50]]) (simp_all add: round_half_even_def)

lemma fl_82_5: "fl (165 / 2) = 165 / 2"
  by (rule trans [OF fl_eval [where k = 46]]) (simp_all add: round_half_even_def)

lemmas fl_literals = fl_tenth fl_4_2 fl_4_6 fl_84_8 fl_25_65 fl_4_113 fl_7_5 fl_82_5

section \<open>Properties of the analyzer\<close>

lemma NORMAL_TEMP_MAX_eq:
  "NORMAL_TEMP_MAX e =
     (case e of
        None \<Rightarrow> 4
      | Some x \<Rightarrow> if x \<le> 20 then 4 else fadd 4 (fmul (fdiv (fsub x 20) 5) (fl 0.1)))"
  by (auto simp: NORMAL_TEMP_MAX_def NORMAL_TEMP_MAX_BASE_def temp_strain_allowance_def truthy_def
      fadd_def fl_numeral split: option.splits)

lemma temp_strain_allowance_nonneg: "0 \<le> temp_strain_allowance e"
  by (auto simp: temp_strain_allowance_def fmul_def fdiv_def fsub_def
      intro!: fl_nonneg mult_nonneg_nonneg divide_nonneg_nonneg split: option.splits)

lemma NORMAL_TEMP_MAX_ge: "4 \<le> NORMAL_TEMP_MAX e"
  using fl_ge [of 4 "4 + temp_strain_allowance e"] temp_strain_allowance_nonneg [of e]
  by (simp add: NORMAL_TEMP_MAX_def NORMAL_TEMP_MAX_BASE_def fadd_def)

lemma NORMAL_TEMP_MAX_30: "NORMAL_TEMP_MAX (Some 30) = 4728779608739021 / 1125899906842624"
proof -
  have a: "fsub 30 20 = 10" "fdiv 10 5 = 2"
    by (simp_all add: fsub_def fdiv_def fl_numeral)
  have b: "fmul 2 (3602879701896397 / 36028797018963968)
      = 3602879701896397 / 18014398509481984"
    unfolding fmul_def
    by (rule trans [OF fl_eval [where k = 55]]) (simp_all add: round_half_even_def)
  have c: "fadd 4 (3602879701896397 / 18014398509481984)
      = 4728779608739021 / 1125899906842624"
    unfolding fadd_def
    by (rule trans [OF fl_eval [where k = 50]]) (simp_all add: round_half_even_def)
  show ?thesis
    by (simp add: NORMAL_TEMP_MAX_eq a b c fl_tenth)
qed

lemma NORMAL_TEMP_MAX_2565:
  "NORMAL_TEMP_MAX (Some (3609916576314163 / 140737488355328))
     = 72356661200683 / 17592186044416"
proof -
  have a: "fsub (3609916576314163 / 140737488355328) 20
      = 795166809207603 / 140737488355328"
    unfolding fsub_def
    by (rule trans [OF fl_eval [where k = 50]]) (simp_all add: round_half_even_def)
  have b: "fdiv (795166809207603 / 140737488355328) 5 = 5089067578928659 / 4503599627370496"
    unfolding fdiv_def
    by (rule trans [OF fl_eval [where k = 52]]) (simp_all add: round_half_even_def)
  have c: "fmul (5089067578928659 / 4503599627370496) (3602879701896397 / 36028797018963968)
      = 8142508126285855 / 72057594037927936"
    unfolding fmul_def
    by (rule trans [OF fl_eval [where k = 56]]) (simp_all add: round_half_even_def)
  have d: "fadd 4 (8142508126285855 / 72057594037927936) = 72356661200683 / 17592186044416"
    unfolding fadd_def
    by (rule trans [OF fl_eval [where k = 50]]) (simp_all add: round_half_even_def)
  show ?thesis
    by (simp add: NORMAL_TEMP_MAX_eq a b c d fl_tenth)
qed

lemma fst_detect_anomaly:
  "fst (detect_anomaly t h e) = (t < 0 \<or> NORMAL_TEMP_MAX e < t \<or> h < 90 \<or> 95 < h)"
  by (auto simp: detect_anomaly_def NORMAL_TEMP_MIN_def NORMAL_HUMIDITY_MIN_def
      NORMAL_HUMIDITY_MAX_def)

lemma fst_detect_anomaly_main6:
  "fst (detect_anomaly_main6 t h e) = fst (detect_anomaly t h e)"
  by (simp add: detect_anomaly_def detect_anomaly_main6_def)

lemma risk_score_terms:
  "risk_score t h e =
     foldl fadd 0
       ((if t > 4 then [fmul (fsub t 4) 10] else [])
        @ (if t < 0 then [fmul \<bar>t\<bar> 15] else [])
        @ (if h > 95 then [fmul (fsub h 95) 5] else [])
        @ (if h < 85 then [fmul (fsub 85 h) 5] else [])
        @ (case e of None \<Rightarrow> [] | Some x \<Rightarrow> if x > 25 then [fmul (fsub x 25) 1.5] else []))"
  by (simp add: risk_score_def truthy_def Let_def split: option.splits)

lemma predict_spoilage_by_score:
  "predict_spoilage t h e =
     (if risk_score t h e > 70 then ''High''
      else if risk_score t h e > 30 then ''Medium'' else ''Low'')"
  by (simp add: predict_spoilage_def Let_def)

lemma risk_score_samples:
  "risk_score 6 92 None = 20" "risk_score 10 92 None = 60"
  "risk_score 10 98 (Some 30) = 82.5"
  by (simp_all add: risk_score_terms fadd_def fsub_def fmul_def fl_numeral fl_literals)

lemma risk_score_boundary:
  "risk_score (- (2589569785738035 / 562949953421312)) (5967269506265907 / 70368744177664) None
     = 4925812092436481 / 70368744177664"
proof -
  have a: "fmul (2589569785738035 / 562949953421312) 15 = 69"
    unfolding fmul_def
    by (rule trans [OF fl_eval [where k = 46]]) (simp_all add: round_half_even_def)
  have b: "fsub 85 (5967269506265907 / 70368744177664) = 14073748835533 / 70368744177664"
    unfolding fsub_def
    by (rule trans [OF fl_eval [where k = 55]]) (simp_all add: round_half_even_def)
  have c: "fmul (14073748835533 / 70368744177664) 5 = 70368744177665 / 70368744177664"
    unfolding fmul_def
    by (rule trans [OF fl_eval [where k = 52]]) (simp_all add: round_half_even_def)
  have d: "fadd 69 (70368744177665 / 70368744177664) = 4925812092436481 / 70368744177664"
    unfolding fadd_def
    by (rule trans [OF fl_eval [where k = 46]]) (simp_all add: round_half_even_def)
  have e: "fadd 0 69 = 69"
    by (simp add: fadd_def fl_numeral)
  show ?thesis
    by (simp add: risk_score_terms a b c d e)
qed

lemma float_inputs:
  "fl (- 4.6) = - (2589569785738035 / 562949953421312)"
  "fl 84.8 = 5967269506265907 / 70368744177664"
  "fl 25.65 = 3609916576314163 / 140737488355328"
  "fl 4.113 = 4630826316843713 / 1125899906842624"
  "fl 4.2 = 4728779608739021 / 1125899906842624"
  by (simp_all add: fl_minus fl_literals)

text \<open>
  C1. The upper temperature bound is 4 without an external temperature or with one of at
  most 20, and \<open>4 + ((external_temp - 20) / 5) * 0.1\<close>, computed in floats, above 20. A
  reading is anomalous exactly when the temperature is outside \<open>[0, NORMAL_TEMP_MAX]\<close> or
  the humidity is outside \<open>[90, 95]\<close>. So a reading inside \<open>[0, 4]\<close> and \<open>[90, 95]\<close> without
  external temperature is not anomalous, and neither is 3.0 degrees at 92 percent with 30
  degrees outside, where the bound is the float 4.2. Both variants of the function agree.
  Rounding is part of the bound: with 25.65 degrees outside it is 4.1129999999999995, so
  the float 4.113 lies above it.
\<close>

theorem detect_anomaly_verdict:
  "NORMAL_TEMP_MAX e =
     (case e of
        None \<Rightarrow> 4
      | Some x \<Rightarrow> if x \<le> 20 then 4 else fadd 4 (fmul (fdiv (fsub x 20) 5) (fl 0.1)))
   \<and> fst (detect_anomaly t h e) = (t < 0 \<or> NORMAL_TEMP_MAX e < t \<or> h < 90 \<or> 95 < h)
   \<and> fst (detect_anomaly_main6 t h e) = (t < 0 \<or> NORMAL_TEMP_MAX e < t \<or> h < 90 \<or> 95 < h)
   \<and> (0 \<le> t \<and> t \<le> 4 \<and> 90 \<le> h \<and> h \<le> 95 \<longrightarrow>
        fst (detect_anomaly t h None) = False \<and> fst (detect_anomaly_main6 t h None) = False)
   \<and> NORMAL_TEMP_MAX (Some 30) = fl 4.2
   \<and> fst (detect_anomaly 3.0 92 (Some 30)) = False
   \<and> fst (detect_anomaly_main6 3.0 92 (Some 30)) = False
   \<and> NORMAL_TEMP_MAX (Some (fl 25.65)) = 72356661200683 / 17592186044416
   \<and> fst (detect_anomaly (fl 4.113) 92 (Some (fl 25.65))) = True
   \<and> fst (detect_anomaly_main6 (fl 4.113) 92 (Some (fl 25.65))) = True"
proof -
  have m: "NORMAL_TEMP_MAX None = 4"
    by (simp add: NORMAL_TEMP_MAX_eq)
  have a: "fst (detect_anomaly t h e) = (t < 0 \<or> NORMAL_TEMP_MAX e < t \<or> h < 90 \<or> 95 < h)"
    "fst (detect_anomaly_main6 t h e) = (t < 0 \<or> NORMAL_TEMP_MAX e < t \<or> h < 90 \<or> 95 < h)"
    by (simp_all add: fst_detect_anomaly_main6 fst_detect_anomaly)
  have b: "0 \<le> t \<and> t \<le> 4 \<and> 90 \<le> h \<and> h \<le> 95 \<longrightarrow>
        fst (detect_anomaly t h None) = False \<and> fst (detect_anomaly_main6 t h None) = False"
    by (auto simp: fst_detect_anomaly_main6 fst_detect_anomaly m)
  have c: "NORMAL_TEMP_MAX (Some 30) = fl 4.2"
    "fst (detect_anomaly 3.0 92 (Some 30)) = False"
    "fst (detect_anomaly_main6 3.0 92 (Some 30)) = False"
    unfolding float_inputs fst_detect_anomaly_main6 fst_detect_anomaly NORMAL_TEMP_MAX_30
    by simp_all
  have d: "NORMAL_TEMP_MAX (Some (fl 25.65)) = 72356661200683 / 17592186044416"
    "fst (detect_anomaly (fl 4.113) 92 (Some (fl 25.65))) = True"
    "fst (detect_anomaly_main6 (fl 4.113) 92 (Some (fl 25.65))) = True"
    unfolding float_inputs fst_detect_anomaly_main6 fst_detect_anomaly NORMAL_TEMP_MAX_2565
    by simp_all
  show ?thesis
    using NORMAL_TEMP_MAX_eq [of e] a b c d by blast
qed

theorem detect_anomaly_verdict_witness:
  "(0::real) \<le> 2 \<and> (2::real) \<le> 4 \<and> (90::real) \<le> 92 \<and> (92::real) \<le> 95
   \<and> fst (detect_anomaly 2 92 None) = False \<and> fst (detect_anomaly_main6 2 92 None) = False"
  using detect_anomaly_verdict [of None 2 92, THEN conjunct2, THEN conjunct2, THEN conjunct2,
      THEN conjunct1]
  by simp

text \<open>
  C2. The score starts at 0 and the terms whose conditions hold are added to it in the
  order of the source, each term and each sum computed in floats; the risk is High above
  70, Medium above 30 and up to 70, Low otherwise. The three sample readings score 20, 60
  and 82.5. Rounding is part of the score: the floats nearest to -4.6 and 84.8 score
  70.00000000000001, which is High.
\<close>

theorem predict_spoilage_buckets:
  "risk_score t h e =
     foldl fadd 0
       ((if t > 4 then [fmul (fsub t 4) 10] else [])
        @ (if t < 0 then [fmul \<bar>t\<bar> 15] else [])
        @ (if h > 95 then [fmul (fsub h 95) 5] else [])
        @ (if h < 85 then [fmul (fsub 85 h) 5] else [])
        @ (case e of None \<Rightarrow> [] | Some x \<Rightarrow> if x > 25 then [fmul (fsub x 25) 1.5] else []))
   \<and> predict_spoilage t h e =
       (if risk_score t h e > 70 then ''High''
        else if risk_score t h e > 30 then ''Medium'' else ''Low'')
   \<and> risk_score 6 92 None = 20 \<and> predict_spoilage 6 92 None = ''Low''
   \<and> risk_score 10 92 None = 60 \<and> predict_spoilage 10 92 None = ''Medium''
   \<and> risk_score 10 98 (Some 30) = 82.5 \<and> predict_spoilage 10 98 (Some 30) = ''High''
   \<and> risk_score (fl (- 4.6)) (fl 84.8) None = 4925812092436481 / 70368744177664
   \<and> predict_spoilage (fl (- 4.6)) (fl 84.8) None = ''High''"
proof -
  have a: "predict_spoilage 6 92 None = ''Low''" "predict_spoilage 10 92 None = ''Medium''"
    "predict_spoilage 10 98 (Some 30) = ''High''"
    by (simp_all add: predict_spoilage_by_score risk_score_samples)
  have b: "risk_score (fl (- 4.6)) (fl 84.8) None = 4925812092436481 / 70368744177664"
    "predict_spoilage (fl (- 4.6)) (fl 84.8) None = ''High''"
    unfolding float_inputs predict_spoilage_by_score risk_score_boundary
    by simp_all
  show ?thesis
    using risk_score_terms [of t h e] predict_spoilage_by_score [of t h e] a b
      risk_score_samples
    by blast
qed

text \<open>
  C10. An anomaly does not imply an elevated risk: 3.0 degrees at 89 percent without
  external temperature is anomalous, scores 0 and is rated Low. The same holds for every
  temperature in \<open>[0, 4]\<close> with a humidity from 85 up to, but not including, 90.
\<close>

theorem anomaly_without_risk:
  "fst (detect_anomaly 3.0 89.0 None) = True
   \<and> fst (detect_anomaly_main6 3.0 89.0 None) = True
   \<and> risk_score 3.0 89.0 None = 0
   \<and> predict_spoilage 3.0 89.0 None = ''Low''
   \<and> (0 \<le> t \<and> t \<le> 4 \<and> 85 \<le> h \<and> h < 90 \<longrightarrow>
        fst (detect_anomaly t h None) = True \<and> risk_score t h None = 0
        \<and> predict_spoilage t h None = ''Low'')"
  by (simp add: fst_detect_anomaly fst_detect_anomaly_main6 risk_score_terms predict_spoilage_def
      NORMAL_TEMP_MAX_eq)

theorem anomaly_without_risk_witness:
  "(0::real) \<le> 2 \<and> (2::real) \<le> 4 \<and> (85::real) \<le> 87 \<and> (87::real) < 90
   \<and> fst (detect_anomaly 2 87 None) = True \<and> risk_score 2 87 None = 0
   \<and> predict_spoilage 2 87 None = ''Low''"
  using anomaly_without_risk [of 2 87] by simp

subsection \<open>The reason text\<close>

lemma is_digit_digit_char: "is_digit (digit_char d)"
proof -
  have "d mod 10 < length ''0123456789''" by simp
  then have "''0123456789'' ! (d mod 10) \<in> set ''0123456789''" by (rule nth_mem)
  then show ?thesis by (simp only: is_digit_def digit_char_def)
qed

lemma str_nat_digits: "str_nat n \<noteq> [] \<and> list_all is_digit (str_nat n)"
proof (induction n rule: str_nat.induct)
  case (1 n)
  show ?case
  proof (cases "n < 10")
    case True
    then show ?thesis by (simp add: str_nat.simps [of n] is_digit_digit_char)
  next
    case False
    with "1" show ?thesis by (simp add: str_nat.simps [of n] is_digit_digit_char)
  qed
qed

lemma one_decimal_fmt_1f: "0 \<le> x \<Longrightarrow> one_decimal (fmt_1f x)"
  using str_nat_digits by (simp add: one_decimal_def fmt_1f_def Let_def is_digit_digit_char)

lemma str_float_samples:
  "str_float (9 / 2) = ''4.5''" "str_float 89 = ''89.0''" "str_float 3 = ''3.0''"
  "str_float 5 = ''5.0''"
  by code_simp+

lemma fmt_1f_samples:
  "fmt_1f 0 = ''0.0''" "fmt_1f 4 = ''4.0''" "fmt_1f 90 = ''90.0''" "fmt_1f 95 = ''95.0''"
  by code_simp+

lemma str_int_samples: "str_int 90 = ''90''" "str_int 95 = ''95''"
  by code_simp+

lemma snd_detect_anomaly_temp:
  "t < 0 \<or> NORMAL_TEMP_MAX e < t \<Longrightarrow>
   snd (detect_anomaly t h e) =
     ''Temperature '' @ str_float t @ deg @ ''C is out of the acceptable range ('' @ fmt_1f 0
       @ deg @ ''C - '' @ fmt_1f (NORMAL_TEMP_MAX e) @ deg @ ''C).''"
  by (auto simp: detect_anomaly_def NORMAL_TEMP_MIN_def)

lemma snd_detect_anomaly_main6_temp:
  "t < 0 \<or> NORMAL_TEMP_MAX e < t \<Longrightarrow>
   snd (detect_anomaly_main6 t h e) =
     ''Temperature '' @ str_float t @ deg_main6 @ ''C is out of the acceptable range (''
       @ fmt_1f 0 @ deg_main6 @ ''C - '' @ fmt_1f (NORMAL_TEMP_MAX e) @ deg_main6 @ ''C).''"
  by (auto simp: detect_anomaly_main6_def NORMAL_TEMP_MIN_def)

lemma snd_detect_anomaly_hum:
  "0 \<le> t \<Longrightarrow> t \<le> NORMAL_TEMP_MAX e \<Longrightarrow> h < 90 \<or> 95 < h \<Longrightarrow>
   snd (detect_anomaly t h e) =
     ''Humidity '' @ str_float h @ ''% is out of the acceptable range (90% - 95%).''"
  by (auto simp: detect_anomaly_def NORMAL_TEMP_MIN_def NORMAL_HUMIDITY_MIN_def
      NORMAL_HUMIDITY_MAX_def str_int_samples)

lemma snd_detect_anomaly_main6_hum:
  "0 \<le> t \<Longrightarrow> t \<le> NORMAL_TEMP_MAX e \<Longrightarrow> h < 90 \<or> 95 < h \<Longrightarrow>
   snd (detect_anomaly_main6 t h e) =
     ''Humidity '' @ str_float h @ ''% is out of the acceptable range (90% - 95%).''"
  by (auto simp: detect_anomaly_main6_def NORMAL_TEMP_MIN_def NORMAL_HUMIDITY_MIN_def
      NORMAL_HUMIDITY_MAX_def str_int_samples)

text \<open>
  C7, as the code has it. When the temperature is outside its range the reason is the
  temperature sentence, whatever the humidity is: it gives the temperature and both bounds,
  each bound written to one decimal place (the lower one is always \<open>0.0\<close>). When the
  temperature is inside its range and the humidity is not, the reason is the humidity
  sentence: it gives the humidity, and the bounds as the whole numbers 90 and 95, without a
  decimal place. For 4.5 degrees at 92 percent the range reads 0.0 to 4.0.
\<close>

theorem detect_anomaly_reason:
  "(t < 0 \<or> NORMAL_TEMP_MAX e < t \<longrightarrow>
      snd (detect_anomaly t h e) =
        ''Temperature '' @ str_float t @ deg @ ''C is out of the acceptable range (''
          @ fmt_1f 0 @ deg @ ''C - '' @ fmt_1f (NORMAL_TEMP_MAX e) @ deg @ ''C).''
      \<and> snd (detect_anomaly_main6 t h e) =
        ''Temperature '' @ str_float t @ deg_main6 @ ''C is out of the acceptable range (''
          @ fmt_1f 0 @ deg_main6 @ ''C - '' @ fmt_1f (NORMAL_TEMP_MAX e) @ deg_main6 @ ''C).''
      \<and> fmt_1f 0 = ''0.0'' \<and> one_decimal (fmt_1f (NORMAL_TEMP_MAX e)))
   \<and> (0 \<le> t \<and> t \<le> NORMAL_TEMP_MAX e \<and> (h < 90 \<or> 95 < h) \<longrightarrow>
      snd (detect_anomaly t h e) =
        ''Humidity '' @ str_float h @ ''% is out of the acceptable range (90% - 95%).''
      \<and> snd (detect_anomaly_main6 t h e) = snd (detect_anomaly t h e))
   \<and> snd (detect_anomaly 4.5 92 None) =
        ''Temperature 4.5'' @ deg @ ''C is out of the acceptable range (0.0'' @ deg
          @ ''C - 4.0'' @ deg @ ''C).''"
proof -
  have m: "NORMAL_TEMP_MAX None = 4"
    by (simp add: NORMAL_TEMP_MAX_eq)
  have d: "one_decimal (fmt_1f (NORMAL_TEMP_MAX e))"
    using NORMAL_TEMP_MAX_ge [of e] by (intro one_decimal_fmt_1f) simp
  have x: "snd (detect_anomaly 4.5 92 None) =
        ''Temperature 4.5'' @ deg @ ''C is out of the acceptable range (0.0'' @ deg
          @ ''C - 4.0'' @ deg @ ''C).''"
    using snd_detect_anomaly_temp [of "4.5" None 92]
    by (simp add: m str_float_samples fmt_1f_samples)
  show ?thesis
    using d x snd_detect_anomaly_temp [of t e h] snd_detect_anomaly_main6_temp [of t e h]
      snd_detect_anomaly_hum [of t e h] snd_detect_anomaly_main6_hum [of t e h]
    by (simp add: fmt_1f_samples)
qed

theorem detect_anomaly_reason_witness:
  "NORMAL_TEMP_MAX None < 5
   \<and> snd (detect_anomaly 5 80 None) =
        ''Temperature 5.0'' @ deg @ ''C is out of the acceptable range (0.0'' @ deg
          @ ''C - 4.0'' @ deg @ ''C).''
   \<and> (0::real) \<le> 3 \<and> 3 \<le> NORMAL_TEMP_MAX None \<and> (89::real) < 90
   \<and> snd (detect_anomaly 3 89 None) =
        ''Humidity 89.0% is out of the acceptable range (90% - 95%).''"
proof -
  have m: "NORMAL_TEMP_MAX None = 4"
    by (simp add: NORMAL_TEMP_MAX_eq)
  show ?thesis
    using detect_anomaly_reason [of 5 None 80] detect_anomaly_reason [of 3 None 89]
    by (simp add: m str_float_samples fmt_1f_samples)
qed

text \<open>
  C7 as stated fails for the humidity sentence: for 3.0 degrees at 89 percent the reason
  names the bounds as \<open>90\<close> and \<open>95\<close>, and neither \<open>90.0\<close> nor \<open>95.0\<close> occurs in it.
\<close>

theorem humidity_reason_bounds_counterexample:
  "fst (detect_anomaly 3.0 89.0 None) = True
   \<and> snd (detect_anomaly 3.0 89.0 None) =
        ''Humidity 89.0% is out of the acceptable range (90% - 95%).''
   \<and> \<not> contains (snd (detect_anomaly 3.0 89.0 None)) (fmt_1f 90)
   \<and> \<not> contains (snd (detect_anomaly 3.0 89.0 None)) (fmt_1f 95)"
proof -
  have m: "NORMAL_TEMP_MAX None = 4"
    by (simp add: NORMAL_TEMP_MAX_eq)
  have r: "snd (detect_anomaly 3 89 None) =
        ''Humidity 89.0% is out of the acceptable range (90% - 95%).''"
    using snd_detect_anomaly_hum [of 3 None 89] by (simp add: m str_float_samples)
  have f: "fst (detect_anomaly 3 89 None) = True"
    by (simp add: fst_detect_anomaly)
  show ?thesis
    by (simp add: r f fmt_1f_samples startswith_def)
qed

section \<open>Properties of sensor acquisition\<close>

lemma read_ds18b20_temp_None: "read_ds18b20_temp fs = None"
  by (simp add: read_ds18b20_temp_def read_ds18b20_body_def Let_def split: sum.splits list.splits)

lemma read_loop_attempts_le: "fst (snd (read_loop ds p delay hw k i sl)) \<le> i + k"
proof (induction k arbitrary: i sl)
  case 0
  then show ?case by simp
next
  case (Suc k)
  have "fst (snd (read_loop ds p delay hw k (Suc i) (sl @ [delay]))) \<le> Suc i + k"
    by (rule Suc.IH)
  then show ?case by (simp split: option.splits)
qed

lemma read_loop_all_fail:
  "\<forall>j<k. attempt_values ds p (hw (i + j)) = None \<and> attempt_sleep (hw (i + j)) delay = None \<Longrightarrow>
   read_loop ds p delay hw k i sl = (Inr None, i + k, sl @ replicate k delay)"
proof (induction k arbitrary: i sl)
  case 0
  then show ?case by simp
next
  case (Suc k)
  from Suc.prems have h0: "attempt_values ds p (hw i) = None" "attempt_sleep (hw i) delay = None"
    by force+
  have "\<forall>j<k. attempt_values ds p (hw (Suc i + j)) = None
      \<and> attempt_sleep (hw (Suc i + j)) delay = None"
    using Suc.prems by (metis Suc_less_eq add_Suc_shift)
  then have "read_loop ds p delay hw k (Suc i) (sl @ [delay])
      = (Inr None, Suc i + k, (sl @ [delay]) @ replicate k delay)"
    by (rule Suc.IH)
  then show ?case using h0 by (simp add: replicate_app_Cons_same)
qed

lemma read_loop_first_success:
  "j < k \<Longrightarrow> attempt_values ds p (hw (i + j)) = Some v \<Longrightarrow>
   \<forall>j'<j. attempt_values ds p (hw (i + j')) = None \<and> attempt_sleep (hw (i + j')) delay = None \<Longrightarrow>
   read_loop ds p delay hw k i sl = (Inr (Some v), Suc (i + j), sl @ replicate j delay)"
proof (induction k arbitrary: i j sl)
  case 0
  then show ?case by simp
next
  case (Suc k)
  show ?case
  proof (cases j)
    case 0
    with Suc.prems show ?thesis by simp
  next
    case (Suc j0)
    from Suc.prems(3) Suc
    have h0: "attempt_values ds p (hw i) = None" "attempt_sleep (hw i) delay = None"
      by force+
    have a: "j0 < k" using Suc.prems(1) Suc by simp
    have b: "attempt_values ds p (hw (Suc i + j0)) = Some v" using Suc.prems(2) Suc by simp
    have c: "\<forall>j'<j0. attempt_values ds p (hw (Suc i + j')) = None
        \<and> attempt_sleep (hw (Suc i + j')) delay = None"
      using Suc.prems(3) Suc by (metis Suc_less_eq add_Suc_shift)
    have "read_loop ds p delay hw k (Suc i) (sl @ [delay])
        = (Inr (Some v), Suc (Suc i + j0), (sl @ [delay]) @ replicate j0 delay)"
      using Suc.IH [OF a b c] .
    then show ?thesis using h0 Suc by (simp add: replicate_app_Cons_same)
  qed
qed

lemma read_loop_sleep_raises:
  "j < k \<Longrightarrow> attempt_values ds p (hw (i + j)) = None \<Longrightarrow>
   attempt_sleep (hw (i + j)) delay = Some e \<Longrightarrow>
   \<forall>j'<j. attempt_values ds p (hw (i + j')) = None \<and> attempt_sleep (hw (i + j')) delay = None \<Longrightarrow>
   read_loop ds p delay hw k i sl = (Inl e, Suc (i + j), sl @ replicate j delay)"
proof (induction k arbitrary: i j sl)
  case 0
  then show ?case by simp
next
  case (Suc k)
  show ?case
  proof (cases j)
    case 0
    with Suc.prems show ?thesis by simp
  next
    case (Suc j0)
    from Suc.prems(4) Suc
    have h0: "attempt_values ds p (hw i) = None" "attempt_sleep (hw i) delay = None"
      by force+
    have a: "j0 < k" using Suc.prems(1) Suc by simp
    have b: "attempt_values ds p (hw (Suc i + j0)) = None" using Suc.prems(2) Suc by simp
    have b': "attempt_sleep (hw (Suc i + j0)) delay = Some e" using Suc.prems(3) Suc by simp
    have c: "\<forall>j'<j0. attempt_values ds p (hw (Suc i + j')) = None
        \<and> attempt_sleep (hw (Suc i + j')) delay = None"
      using Suc.prems(4) Suc by (metis Suc_less_eq add_Suc_shift)
    have "read_loop ds p delay hw k (Suc i) (sl @ [delay])
        = (Inl e, Suc (Suc i + j0), (sl @ [delay]) @ replicate j0 delay)"
      using Suc.IH [OF a b b' c] .
    then show ?thesis using h0 Suc by (simp add: replicate_app_Cons_same)
  qed
qed

lemma attempt_values_Some:
  "attempt_values ds p a = Some (t, h) \<Longrightarrow>
   dht_humidity a = Inr (Some h) \<and> (dht_temperature a = Inr (Some t) \<or> (p \<and> ds (w1 a) = Some t))"
  by (auto simp: attempt_values_def Let_def split: sum.splits option.splits if_splits)

lemma read_with_attempts_le: "attempts (read_with ds p retries delay_s hw) \<le> nat (max 1 retries)"
  using read_loop_attempts_le [of ds p delay_s hw "nat (max 1 retries)" 0 "[]"]
  by (auto simp: read_with_def split: prod.splits sum.splits option.splits)

lemma read_with_all_fail:
  assumes "\<forall>i<nat (max 1 retries).
      attempt_values ds p (hw i) = None \<and> attempt_sleep (hw i) delay_s = None"
  shows "read_with ds p retries delay_s hw =
    \<lparr>result = Inl RuntimeError, attempts = nat (max 1 retries),
     sleeps = replicate (nat (max 1 retries)) delay_s\<rparr>"
  using read_loop_all_fail [of "nat (max 1 retries)" ds p hw 0 delay_s "[]"] assms
  by (simp add: read_with_def)

lemma read_with_first_success:
  assumes "i < nat (max 1 retries)" "attempt_values ds p (hw i) = Some (t, h)"
    "\<forall>j<i. attempt_values ds p (hw j) = None \<and> attempt_sleep (hw j) delay_s = None"
  shows "read_with ds p retries delay_s hw =
    \<lparr>result = Inr (round1 t, round1 h), attempts = Suc i, sleeps = replicate i delay_s\<rparr>"
  using read_loop_first_success [of i "nat (max 1 retries)" ds p hw 0 "(t, h)" delay_s "[]"] assms
  by (simp add: read_with_def)

lemma read_with_sleep_raises:
  assumes "i < nat (max 1 retries)" "attempt_values ds p (hw i) = None"
    "attempt_sleep (hw i) delay_s = Some e"
    "\<forall>j<i. attempt_values ds p (hw j) = None \<and> attempt_sleep (hw j) delay_s = None"
  shows "read_with ds p retries delay_s hw =
    \<lparr>result = Inl e, attempts = Suc i, sleeps = replicate i delay_s\<rparr>"
  using read_loop_sleep_raises [of i "nat (max 1 retries)" ds p hw 0 delay_s e "[]"] assms
  by (simp add: read_with_def)

lemma first_success_exists:
  fixes f :: "nat \<Rightarrow> 'a option"
  assumes "\<exists>i<n. f i \<noteq> None"
  shows "\<exists>i<n. (\<exists>v. f i = Some v) \<and> (\<forall>j<i. f j = None)"
proof -
  define i where "i = (LEAST i. f i \<noteq> None)"
  from assms obtain i0 where i0: "i0 < n" "f i0 \<noteq> None" by blast
  have a: "f i \<noteq> None"
    unfolding i_def using LeastI [of "\<lambda>i. f i \<noteq> None" i0] i0(2) by simp
  have b: "i \<le> i0"
    unfolding i_def using Least_le [of "\<lambda>i. f i \<noteq> None" i0] i0(2) by simp
  have c: "\<forall>j<i. f j = None" unfolding i_def using not_less_Least by blast
  from a b c i0 show ?thesis by (metis le_less_trans not_None_eq)
qed

lemma sleep_posix_samples:
  "sleep_posix 2 = None" "sleep_posix 300 = None"
  "sleep_posix 10000000000 = Some OverflowError"
  by (simp_all add: sleep_posix_def sleep_linux_def)

text \<open>
  C3, as the code has it. \<open>read\<close> makes at most \<open>max(1, retries)\<close> attempts, whatever
  happens. It stops at the first attempt that has both values and returns these rounded to
  one decimal place, provided \<open>time.sleep\<close> accepted \<open>delay_s\<close> after each failed
  attempt before it; it has then slept once after each of these. When every one of the
  \<open>max(1, retries)\<close> attempts ends in an exception or a missing value and every sleep is
  accepted, it fails with \<open>RuntimeError\<close> after \<open>max(1, retries)\<close> attempts, each followed
  by one sleep of \<open>delay_s\<close>, the last one included. The sleep is outside the \<open>try\<close>: when
  \<open>time.sleep\<close> raises after a failed attempt (a negative delay, a delay too large for
  the platform), \<open>read\<close> is left with that exception after this attempt, the remaining
  retries unused. When \<open>time.sleep\<close> accepts the delay, \<open>read\<close> fails with
  \<open>RuntimeError\<close> exactly when all \<open>max(1, retries)\<close> attempts fail. An attempt has both
  values only when the humidity read gave a number and the temperature came from the DHT22
  or, when preferred, from the DS18B20.
\<close>

theorem read_bounded_retry:
  "attempts (read_with ds p retries delay_s hw) \<le> nat (max 1 retries)
    \<and> ((\<forall>i<nat (max 1 retries). attempt_sleep (hw i) delay_s = None) \<longrightarrow>
         (result (read_with ds p retries delay_s hw) = Inl RuntimeError
           \<longleftrightarrow> (\<forall>i<nat (max 1 retries). attempt_values ds p (hw i) = None)))
    \<and> ((\<forall>i<nat (max 1 retries).
            attempt_values ds p (hw i) = None \<and> attempt_sleep (hw i) delay_s = None) \<longrightarrow>
          result (read_with ds p retries delay_s hw) = Inl RuntimeError
          \<and> attempts (read_with ds p retries delay_s hw) = nat (max 1 retries)
          \<and> sleeps (read_with ds p retries delay_s hw) = replicate (nat (max 1 retries)) delay_s)
    \<and> (\<forall>i<nat (max 1 retries). \<forall>t h.
          attempt_values ds p (hw i) = Some (t, h)
          \<and> (\<forall>j<i. attempt_values ds p (hw j) = None \<and> attempt_sleep (hw j) delay_s = None) \<longrightarrow>
            result (read_with ds p retries delay_s hw) = Inr (round1 t, round1 h)
            \<and> attempts (read_with ds p retries delay_s hw) = Suc i
            \<and> sleeps (read_with ds p retries delay_s hw) = replicate i delay_s)
    \<and> (\<forall>i<nat (max 1 retries). \<forall>e.
          attempt_values ds p (hw i) = None \<and> attempt_sleep (hw i) delay_s = Some e
          \<and> (\<forall>j<i. attempt_values ds p (hw j) = None \<and> attempt_sleep (hw j) delay_s = None) \<longrightarrow>
            result (read_with ds p retries delay_s hw) = Inl e
            \<and> attempts (read_with ds p retries delay_s hw) = Suc i
            \<and> sleeps (read_with ds p retries delay_s hw) = replicate i delay_s)
    \<and> (\<forall>a t h. attempt_values ds p a = Some (t, h) \<longrightarrow>
          dht_humidity a = Inr (Some h)
          \<and> (dht_temperature a = Inr (Some t) \<or> p \<and> ds (w1 a) = Some t))"
proof -
  let ?n = "nat (max 1 retries)"
  let ?r = "read_with ds p retries delay_s hw"
  let ?f = "\<lambda>i. attempt_values ds p (hw i)"
  let ?s = "\<lambda>i. attempt_sleep (hw i) delay_s"
  have succ: "result ?r = Inr (round1 t, round1 h) \<and> attempts ?r = Suc i
      \<and> sleeps ?r = replicate i delay_s"
    if "i < ?n" "?f i = Some (t, h)" "\<forall>j<i. ?f j = None \<and> ?s j = None" for i t h
    using read_with_first_success [OF that] by simp
  have fail: "result ?r = Inl RuntimeError \<and> attempts ?r = ?n \<and> sleeps ?r = replicate ?n delay_s"
    if "\<forall>i<?n. ?f i = None \<and> ?s i = None"
    using read_with_all_fail [OF that] by simp
  have raise: "result ?r = Inl e \<and> attempts ?r = Suc i \<and> sleeps ?r = replicate i delay_s"
    if "i < ?n" "?f i = None" "?s i = Some e" "\<forall>j<i. ?f j = None \<and> ?s j = None" for i e
    using read_with_sleep_raises [OF that] by simp
  have iff: "result ?r = Inl RuntimeError \<longleftrightarrow> (\<forall>i<?n. ?f i = None)"
    if acc: "\<forall>i<?n. ?s i = None"
  proof
    assume e: "result ?r = Inl RuntimeError"
    show "\<forall>i<?n. ?f i = None"
    proof (rule ccontr)
      assume "\<not> (\<forall>i<?n. ?f i = None)"
      then obtain i v where i: "i < ?n" "?f i = Some v" "\<forall>j<i. ?f j = None"
        using first_success_exists [of ?n ?f] by blast
      from i(1,3) acc have "\<forall>j<i. ?f j = None \<and> ?s j = None" by auto
      then have "result ?r = Inr (round1 (fst v), round1 (snd v))"
        using succ [of i "fst v" "snd v"] i by simp
      with e show False by simp
    qed
  next
    assume "\<forall>i<?n. ?f i = None"
    with acc have "\<forall>i<?n. ?f i = None \<and> ?s i = None" by simp
    then show "result ?r = Inl RuntimeError" using fail by simp
  qed
  have 1: "attempts ?r \<le> ?n" by (rule read_with_attempts_le)
  have 2: "(\<forall>i<?n. ?s i = None) \<longrightarrow> (result ?r = Inl RuntimeError \<longleftrightarrow> (\<forall>i<?n. ?f i = None))"
    using iff by blast
  have 3: "(\<forall>i<?n. ?f i = None \<and> ?s i = None) \<longrightarrow>
      result ?r = Inl RuntimeError \<and> attempts ?r = ?n \<and> sleeps ?r = replicate ?n delay_s"
    using fail by blast
  have 4: "\<forall>i<?n. \<forall>t h. ?f i = Some (t, h) \<and> (\<forall>j<i. ?f j = None \<and> ?s j = None) \<longrightarrow>
      result ?r = Inr (round1 t, round1 h) \<and> attempts ?r = Suc i
      \<and> sleeps ?r = replicate i delay_s"
    using succ by blast
  have 5: "\<forall>i<?n. \<forall>e. ?f i = None \<and> ?s i = Some e \<and> (\<forall>j<i. ?f j = None \<and> ?s j = None) \<longrightarrow>
      result ?r = Inl e \<and> attempts ?r = Suc i \<and> sleeps ?r = replicate i delay_s"
    using raise by blast
  have 6: "\<forall>a t h. attempt_values ds p a = Some (t, h) \<longrightarrow>
      dht_humidity a = Inr (Some h)
      \<and> (dht_temperature a = Inr (Some t) \<or> p \<and> ds (w1 a) = Some t)"
    using attempt_values_Some [of ds p] by blast
  from 1 2 3 4 5 6 show ?thesis by (intro conjI)
qed

lemma attempt_values_samples:
  "attempt_values ds False hw_good = Some (86 / 25, 2299 / 25)"
  "attempt_values ds False hw_null = None"
  "attempt_values ds False hw_raise = None"
  by (simp_all add: attempt_values_def hw_good_def hw_null_def hw_raise_def)

lemma round1_samples:
  "round1 (86 / 25) = 17 / 5" "round1 (2299 / 25) = 92" "round1 (185 / 8) = 231 / 10"
  by (simp_all add: round1_def round_half_even_def)

lemma hw_third_ok_values:
  "attempt_values ds False (hw_third_ok 2) = Some (86 / 25, 2299 / 25)"
  "j < 2 \<Longrightarrow> attempt_values ds False (hw_third_ok j) = None"
  by (simp_all add: hw_third_ok_def attempt_values_samples)

lemma hw_sample_sleep: "attempt_sleep hw_good = sleep_posix" "attempt_sleep hw_null = sleep_posix"
  "attempt_sleep hw_raise = sleep_posix" "attempt_sleep (hw_third_ok i) = sleep_posix"
  by (simp_all add: hw_good_def hw_null_def hw_raise_def hw_third_ok_def)

theorem read_bounded_retry_witness:
  "result (read_with read_ds18b20_temp False 3 2 hw_third_ok) = Inr (17 / 5, 92)
   \<and> attempts (read_with read_ds18b20_temp False 3 2 hw_third_ok) = 3
   \<and> sleeps (read_with read_ds18b20_temp False 3 2 hw_third_ok) = [2, 2]
   \<and> result (read_with read_ds18b20_temp False 3 2 (\<lambda>i. hw_raise)) = Inl RuntimeError
   \<and> attempts (read_with read_ds18b20_temp False 3 2 (\<lambda>i. hw_raise)) = 3
   \<and> sleeps (read_with read_ds18b20_temp False 3 2 (\<lambda>i. hw_raise)) = [2, 2, 2]
   \<and> result (read_with read_ds18b20_temp False 3 10000000000 (\<lambda>i. hw_raise)) = Inl OverflowError
   \<and> attempts (read_with read_ds18b20_temp False 3 10000000000 (\<lambda>i. hw_raise)) = 1
   \<and> sleeps (read_with read_ds18b20_temp False 3 10000000000 (\<lambda>i. hw_raise)) = []
   \<and> attempt_values read_ds18b20_temp False hw_good = Some (86 / 25, 2299 / 25)
   \<and> dht_humidity hw_good = Inr (Some (2299 / 25))"
proof -
  have r: "replicate 3 (2::real) = [2, 2, 2]" "replicate 2 (2::real) = [2, 2]"
    by (simp_all add: numeral_eq_Suc)
  note a = read_bounded_retry [of read_ds18b20_temp False 3 2 hw_third_ok]
  note b = read_bounded_retry [of read_ds18b20_temp False 3 2 "\<lambda>i. hw_raise"]
  note c = read_bounded_retry [of read_ds18b20_temp False 3 10000000000 "\<lambda>i. hw_raise"]
  note a4 = a [THEN conjunct2, THEN conjunct2, THEN conjunct2, THEN conjunct1, rule_format,
      of 2 "86 / 25" "2299 / 25"]
  note b2 = b [THEN conjunct2, THEN conjunct1, rule_format]
  note b3 = b [THEN conjunct2, THEN conjunct2, THEN conjunct1, rule_format]
  note c5 = c [THEN conjunct2, THEN conjunct2, THEN conjunct2, THEN conjunct2, THEN conjunct1,
      rule_format, of 0 OverflowError]
  have 1: "result (read_with read_ds18b20_temp False 3 2 hw_third_ok)
        = Inr (round1 (86 / 25), round1 (2299 / 25))
      \<and> attempts (read_with read_ds18b20_temp False 3 2 hw_third_ok) = Suc 2
      \<and> sleeps (read_with read_ds18b20_temp False 3 2 hw_third_ok) = replicate 2 2"
    by (rule a4) (simp_all add: hw_third_ok_values hw_sample_sleep sleep_posix_samples)
  have 2: "result (read_with read_ds18b20_temp False 3 2 (\<lambda>i. hw_raise)) = Inl RuntimeError
      \<and> attempts (read_with read_ds18b20_temp False 3 2 (\<lambda>i. hw_raise)) = nat (max 1 3)
      \<and> sleeps (read_with read_ds18b20_temp False 3 2 (\<lambda>i. hw_raise))
        = replicate (nat (max 1 3)) 2"
    by (rule b3) (simp add: attempt_values_samples hw_sample_sleep sleep_posix_samples)
  have 3: "result (read_with read_ds18b20_temp False 3 2 (\<lambda>i. hw_raise)) = Inl RuntimeError
      \<longleftrightarrow> (\<forall>i<nat (max 1 3). attempt_values read_ds18b20_temp False hw_raise = None)"
    by (rule b2) (simp add: hw_sample_sleep sleep_posix_samples)
  have 4: "result (read_with read_ds18b20_temp False 3 10000000000 (\<lambda>i. hw_raise))
        = Inl OverflowError
      \<and> attempts (read_with read_ds18b20_temp False 3 10000000000 (\<lambda>i. hw_raise)) = Suc 0
      \<and> sleeps (read_with read_ds18b20_temp False 3 10000000000 (\<lambda>i. hw_raise))
        = replicate 0 10000000000"
    by (rule c5) (simp_all add: attempt_values_samples hw_sample_sleep sleep_posix_samples)
  have 5: "dht_humidity hw_good = Inr (Some (2299 / 25))"
    using a [THEN conjunct2, THEN conjunct2, THEN conjunct2, THEN conjunct2, THEN conjunct2,
        rule_format, of hw_good "86 / 25" "2299 / 25"]
    by (simp add: attempt_values_samples)
  show ?thesis
    using 1 2 3 4 5 by (simp add: round1_samples r attempt_values_samples)
qed

text \<open>
  C3 as stated fails for \<open>retries = 0\<close>: the loop runs over \<open>range(max(1, retries))\<close>, so
  one attempt is made, more than \<open>retries\<close>, and its reading is returned although none of
  the first \<open>retries\<close> attempts succeeded.
\<close>

theorem read_zero_retries_counterexample:
  "attempts (SensorReader_read False 0 2 (\<lambda>i. hw_good)) = 1
   \<and> \<not> int (attempts (SensorReader_read False 0 2 (\<lambda>i. hw_good))) \<le> 0
   \<and> result (SensorReader_read False 0 2 (\<lambda>i. hw_good)) = Inr (17 / 5, 92)"
proof -
  have "read_with read_ds18b20_temp False 0 2 (\<lambda>i. hw_good) =
    \<lparr>result = Inr (round1 (86 / 25), round1 (2299 / 25)), attempts = Suc 0,
     sleeps = replicate 0 2\<rparr>"
    by (rule read_with_first_success) (simp_all add: attempt_values_samples)
  then show ?thesis
    by (simp add: SensorReader_read_def round1_samples)
qed

lemma w1_present_main5: "read_ds18b20_temp_main5 w1_present = Some (185 / 8)"
  by code_simp

lemma attempt_values_ds18b20:
  "attempt_values read_ds18b20_temp True hw_with_ds18b20 = Some (86 / 25, 2299 / 25)"
  "attempt_values read_ds18b20_temp_main5 True hw_with_ds18b20 = Some (185 / 8, 2299 / 25)"
  by (simp_all add: attempt_values_def hw_with_ds18b20_def hw_good_def read_ds18b20_temp_None
      w1_present_main5)

text \<open>
  C8 against \<open>delta.py\<close>. The \<open>_read_ds18b20_temp\<close> of \<open>delta.py\<close> returns \<open>None\<close> for every
  state of the 1-Wire file system. With a DS18B20 present whose \<open>w1_slave\<close> file has a valid
  checksum line and \<open>t=23125\<close>, the function of \<open>main5.py\<close> returns 23.125; with the
  DS18B20 preferred, \<open>read\<close> of \<open>main5.py\<close> returns 23.1 degrees, and \<open>read\<close> of \<open>delta.py\<close>
  returns the 3.4 degrees of the DHT22.
\<close>

theorem ds18b20_override_lost:
  "read_ds18b20_temp fs = None
   \<and> read_ds18b20_temp_main5 w1_present = Some 23.125
   \<and> result (SensorReader_read True 3 2 (\<lambda>i. hw_with_ds18b20)) = Inr (3.4, 92)
   \<and> result (SensorReader_read_main5 True 3 2 (\<lambda>i. hw_with_ds18b20)) = Inr (23.1, 92)"
proof -
  have "read_with read_ds18b20_temp True 3 2 (\<lambda>i. hw_with_ds18b20) =
    \<lparr>result = Inr (round1 (86 / 25), round1 (2299 / 25)), attempts = Suc 0,
     sleeps = replicate 0 2\<rparr>"
    by (rule read_with_first_success) (simp_all add: attempt_values_ds18b20)
  moreover have "read_with read_ds18b20_temp_main5 True 3 2 (\<lambda>i. hw_with_ds18b20) =
    \<lparr>result = Inr (round1 (185 / 8), round1 (2299 / 25)), attempts = Suc 0,
     sleeps = replicate 0 2\<rparr>"
    by (rule read_with_first_success) (simp_all add: attempt_values_ds18b20)
  ultimately show ?thesis
    by (simp add: SensorReader_read_def SensorReader_read_main5_def round1_samples
        read_ds18b20_temp_None w1_present_main5)
qed

section \<open>Properties of persistence, the manual path and the scheduler\<close>

lemma print_fields [simp]:
  "sensor (print e s) = sensor s" "pending (print e s) = pending s"
  "committed (print e s) = committed s" "printed (print e s) = printed s @ [e]"
  "slept (print e s) = slept s" "ticks (print e s) = ticks s"
  by (simp_all add: print_def)

lemma session_add_fields [simp]:
  "sensor (session_add r s) = sensor s" "pending (session_add r s) = pending s @ [r]"
  "committed (session_add r s) = committed s" "printed (session_add r s) = printed s"
  "slept (session_add r s) = slept s" "ticks (session_add r s) = ticks s"
  by (simp_all add: session_add_def)

lemma smtp_try_fields [simp]:
  "sensor (snd (smtp_try m s)) = sensor s" "pending (snd (smtp_try m s)) = pending s"
  "committed (snd (smtp_try m s)) = committed s"
  "slept (snd (smtp_try m s)) = slept s" "ticks (snd (smtp_try m s)) = ticks s"
  by (simp_all add: smtp_try_def)

lemma fst_smtp_try [simp]: "fst (smtp_try m s) = connect_ok m"
  by (simp add: smtp_try_def)

lemma send_email_alert_main6_fields [simp]:
  "sensor (send_email_alert_main6 c m a s) = sensor s"
  "pending (send_email_alert_main6 c m a s) = pending s"
  "committed (send_email_alert_main6 c m a s) = committed s"
  "slept (send_email_alert_main6 c m a s) = slept s"
  "ticks (send_email_alert_main6 c m a s) = ticks s"
  by (simp_all add: send_email_alert_main6_def Let_def)

lemma send_email_alert_main6_printed:
  "printed (send_email_alert_main6 c m a s) =
     printed s @ [EmailTriggered a,
       if \<not> c then EmailSkipped
       else if connect_ok m \<and> starttls_ok m \<and> login_ok m \<and> sendmail_ok m then EmailSent
       else EmailError]"
  by (simp add: send_email_alert_main6_def smtp_try_def Let_def)

lemma send_email_alert_split:
  "send_email_alert c m a s =
     ((if c \<and> connect_ok m \<and> \<not> quit_ok m then Some SMTPException else None),
      (if c then snd (smtp_try m (print (EmailTriggered a) s))
       else print EmailSkipped (print (EmailTriggered a) s)))"
  by (cases "smtp_try m (print (EmailTriggered a) s)")
     (auto simp: send_email_alert_def Let_def dest: arg_cong [where f = fst])

lemma send_email_alert_fields [simp]:
  "sensor (snd (send_email_alert c m a s)) = sensor s"
  "pending (snd (send_email_alert c m a s)) = pending s"
  "committed (snd (send_email_alert c m a s)) = committed s"
  "slept (snd (send_email_alert c m a s)) = slept s"
  "ticks (snd (send_email_alert c m a s)) = ticks s"
  by (simp_all add: send_email_alert_split)

lemma add_data_stores:
  assumes "get_weather_forecast (api_key_usable cfg) (http sv) = Inr w"
    and "commit_ok sv"
    and "\<not> (creds_set cfg \<and> connect_ok (smtp_env sv) \<and> \<not> quit_ok (smtp_env sv))
         \<or> \<not> fst (detect_anomaly t h (external_temp_of w))"
  shows "fst (add_data cfg sv (Parsed t) (Parsed h) s) = JsonSuccess
    \<and> pending (snd (add_data cfg sv (Parsed t) (Parsed h) s)) = []
    \<and> committed (snd (add_data cfg sv (Parsed t) (Parsed h) s)) =
        committed s @ pending s @ [SensorReading t h]
        @ (if fst (detect_anomaly t h (external_temp_of w))
           then [AlertLog (snd (detect_anomaly t h (external_temp_of w)))] else [])"
  using assms
  by (auto simp: add_data_def add_data_try_def float_field_def Let_def session_commit_def
      send_email_alert_split split: prod.splits option.splits)

lemma add_data_error_keeps:
  assumes "fst (add_data cfg sv ft fh s) = JsonError e"
  shows "committed (snd (add_data cfg sv ft fh s)) = committed s
    \<and> pending (snd (add_data cfg sv ft fh s)) = []"
  using assms
  by (auto simp: add_data_def add_data_try_def float_field_def Let_def session_commit_def
      session_rollback_def send_email_alert_split
      split: prod.splits option.splits sum.splits form_field.splits if_splits)

lemma probe_loop_frame [simp]:
  "pending (probe_loop p cs s) = pending s" "committed (probe_loop p cs s) = committed s"
  "slept (probe_loop p cs s) = slept s" "ticks (probe_loop p cs s) = ticks s"
  by (induction cs arbitrary: s; simp)+

lemma try_init_sensor_frame [simp]:
  "pending (try_init_sensor cfg p s) = pending s"
  "committed (try_init_sensor cfg p s) = committed s"
  "slept (try_init_sensor cfg p s) = slept s" "ticks (try_init_sensor cfg p s) = ticks s"
  by (simp_all add: try_init_sensor_def)

lemma probe_loop_all_fail:
  "\<forall>c\<in>set cs. \<not> p (snd c) \<Longrightarrow> sensor (probe_loop p cs s) = sensor s"
  by (induction cs arbitrary: s) simp_all

lemma probe_loop_first_ok:
  "\<forall>x\<in>set pre. \<not> p (snd x) \<Longrightarrow> p (snd c) \<Longrightarrow>
   sensor (probe_loop p (pre @ c # post) s) = Some (snd c)"
  by (induction pre arbitrary: s) simp_all

lemma cycle_try_frame:
  "slept (snd (cycle_try cfg ev s)) = slept s \<and> ticks (snd (cycle_try cfg ev s)) = ticks s"
  by (auto simp: cycle_try_def Let_def session_commit_def split: option.splits sum.splits)

lemma cycle_try_sensor_kept:
  "sensor s = Some d \<Longrightarrow> sensor (snd (cycle_try cfg ev s)) = Some d"
  by (auto simp: cycle_try_def Let_def session_commit_def split: option.splits sum.splits)

lemma cycle_try_adopted:
  "sensor s = Some d \<Longrightarrow> fst (cycle_try cfg ev s) = stage_failure cfg ev d"
  by (auto simp: cycle_try_def stage_failure_def Let_def session_commit_def
      split: option.splits sum.splits)

lemma cycle_try_failure_committed:
  "fst (cycle_try cfg ev s) = Some e \<Longrightarrow> committed (snd (cycle_try cfg ev s)) = committed s"
  by (auto simp: cycle_try_def Let_def session_commit_def split: option.splits sum.splits if_splits)

lemma cycle_try_success_committed:
  assumes "sensor s = Some d" "humidity_of ev d = Inr (Some h)" "temperature_of ev d = Inr (Some t)"
    "get_weather_forecast (api_key_usable cfg) (http (svc ev)) = Inr w" "commit_ok (svc ev)"
  shows "fst (cycle_try cfg ev s) = None
    \<and> pending (snd (cycle_try cfg ev s)) = []
    \<and> committed (snd (cycle_try cfg ev s)) =
        committed s @ pending s @ [SensorReading t h]
        @ (if fst (detect_anomaly_main6 t h (external_temp_of w))
           then [AlertLog (snd (detect_anomaly_main6 t h (external_temp_of w)))] else [])
    \<and> printed (snd (cycle_try cfg ev s)) =
        printed s
        @ (if fst (detect_anomaly_main6 t h (external_temp_of w))
           then [EmailTriggered (snd (detect_anomaly_main6 t h (external_temp_of w))),
                 if \<not> creds_set cfg then EmailSkipped
                 else if connect_ok (smtp_env (svc ev)) \<and> starttls_ok (smtp_env (svc ev))
                        \<and> login_ok (smtp_env (svc ev)) \<and> sendmail_ok (smtp_env (svc ev))
                      then EmailSent
                 else EmailError]
           else [])
        @ [InfoLogged t h]"
  using assms
  by (auto simp: cycle_try_def Let_def session_commit_def send_email_alert_main6_printed)

lemma cycle_body_None:
  assumes "fst (cycle_try cfg ev (s\<lparr>ticks := Suc (ticks s)\<rparr>)) = None"
  shows "cycle_body cfg ev s = snd (cycle_try cfg ev (s\<lparr>ticks := Suc (ticks s)\<rparr>))"
  using assms
  by (cases "cycle_try cfg ev (s\<lparr>ticks := Suc (ticks s)\<rparr>)") (simp add: cycle_body_def)

lemma cycle_body_Some:
  assumes "fst (cycle_try cfg ev (s\<lparr>ticks := Suc (ticks s)\<rparr>)) = Some e"
  shows "cycle_body cfg ev s =
    (print (ErrorInLoop e) (snd (cycle_try cfg ev (s\<lparr>ticks := Suc (ticks s)\<rparr>))))
      \<lparr>pending := (if rollback_ok (svc ev) then []
                   else pending (snd (cycle_try cfg ev (s\<lparr>ticks := Suc (ticks s)\<rparr>))))\<rparr>"
  using assms
  by (cases "cycle_try cfg ev (s\<lparr>ticks := Suc (ticks s)\<rparr>)")
     (simp add: cycle_body_def session_rollback_def)

lemma cycle_body_frame:
  "slept (cycle_body cfg ev s) = slept s \<and> ticks (cycle_body cfg ev s) = Suc (ticks s)"
proof (cases "fst (cycle_try cfg ev (s\<lparr>ticks := Suc (ticks s)\<rparr>))")
  case None
  show ?thesis
    using cycle_body_None [OF None] cycle_try_frame [of cfg ev "s\<lparr>ticks := Suc (ticks s)\<rparr>"]
    by simp
next
  case (Some e)
  show ?thesis
    using cycle_body_Some [OF Some] cycle_try_frame [of cfg ev "s\<lparr>ticks := Suc (ticks s)\<rparr>"]
    by simp
qed

lemma cycle_body_fields:
  "sensor (cycle_body cfg ev s) = sensor (snd (cycle_try cfg ev (s\<lparr>ticks := Suc (ticks s)\<rparr>)))
   \<and> committed (cycle_body cfg ev s)
       = committed (snd (cycle_try cfg ev (s\<lparr>ticks := Suc (ticks s)\<rparr>)))
   \<and> printed (cycle_body cfg ev s) =
       printed (snd (cycle_try cfg ev (s\<lparr>ticks := Suc (ticks s)\<rparr>)))
       @ (case fst (cycle_try cfg ev (s\<lparr>ticks := Suc (ticks s)\<rparr>)) of
            None \<Rightarrow> [] | Some e \<Rightarrow> [ErrorInLoop e])"
proof (cases "fst (cycle_try cfg ev (s\<lparr>ticks := Suc (ticks s)\<rparr>))")
  case None
  show ?thesis using cycle_body_None [OF None] None by simp
next
  case (Some e)
  show ?thesis using cycle_body_Some [OF Some] Some by simp
qed

lemma cycle_sleep_accepts:
  "cycle_sleep ev (of_int (READ_INTERVAL_SEC cfg)) = None \<Longrightarrow>
   cycle cfg ev s = Inr ((cycle_body cfg ev s)\<lparr>slept := slept s @ [READ_INTERVAL_SEC cfg]\<rparr>)"
  using cycle_body_frame [of cfg ev s] by (simp add: cycle_def time_sleep_def)

lemma cycle_sleep_raises:
  "cycle_sleep ev (of_int (READ_INTERVAL_SEC cfg)) = Some e \<Longrightarrow> cycle cfg ev s = Inl e"
  by (simp add: cycle_def time_sleep_def)

lemma background_reader_total:
  assumes "\<forall>ev\<in>set evs. cycle_sleep ev (of_int (READ_INTERVAL_SEC cfg)) = None"
  shows "\<exists>s'. background_reader cfg evs s = Inr s'
    \<and> slept s' = slept s @ replicate (length evs) (READ_INTERVAL_SEC cfg)
    \<and> ticks s' = ticks s + length evs"
  using assms
proof (induction evs arbitrary: s)
  case Nil
  show ?case by simp
next
  case (Cons ev evs)
  let ?s1 = "(cycle_body cfg ev s)\<lparr>slept := slept s @ [READ_INTERVAL_SEC cfg]\<rparr>"
  have c: "cycle cfg ev s = Inr ?s1"
    using Cons.prems by (intro cycle_sleep_accepts) simp
  have f: "slept ?s1 = slept s @ [READ_INTERVAL_SEC cfg]" "ticks ?s1 = Suc (ticks s)"
    using cycle_body_frame [of cfg ev s] by simp_all
  have "\<forall>ev\<in>set evs. cycle_sleep ev (of_int (READ_INTERVAL_SEC cfg)) = None"
    using Cons.prems by simp
  from Cons.IH [OF this, of ?s1] obtain s2 where
    s2: "background_reader cfg evs ?s1 = Inr s2"
      "slept s2 = slept ?s1 @ replicate (length evs) (READ_INTERVAL_SEC cfg)"
      "ticks s2 = ticks ?s1 + length evs" by blast
  show ?case using c f s2 by simp
qed

lemma background_reader_sleep_raises:
  assumes "\<forall>x\<in>set pre. cycle_sleep x (of_int (READ_INTERVAL_SEC cfg)) = None"
    "cycle_sleep ev (of_int (READ_INTERVAL_SEC cfg)) = Some e"
  shows "background_reader cfg (pre @ ev # post) s = Inl e"
  using assms(1)
proof (induction pre arbitrary: s)
  case Nil
  show ?case using cycle_sleep_raises [OF assms(2)] by simp
next
  case (Cons x pre)
  have c: "cycle cfg x s = Inr ((cycle_body cfg x s)\<lparr>slept := slept s @ [READ_INTERVAL_SEC cfg]\<rparr>)"
    using Cons.prems by (intro cycle_sleep_accepts) simp
  have "\<forall>x\<in>set pre. cycle_sleep x (of_int (READ_INTERVAL_SEC cfg)) = None"
    using Cons.prems by simp
  from Cons.IH [OF this] c show ?case by simp
qed

lemma candidates_main6:
  "candidates cfg_main6 = [(''ENV'', 17), (''D4'', 4), (''D27'', 27), (''D22'', 22)]"
  by code_simp

lemma anomaly_warm: "fst (detect_anomaly_main6 10 92 (Some 30)) = True"
  unfolding fst_detect_anomaly_main6 fst_detect_anomaly NORMAL_TEMP_MAX_30 by simp

lemma sample_sleep:
  "cycle_sleep ev_warm = sleep_posix" "cycle_sleep ev_read_fails = sleep_posix"
  "cycle_sleep ev_fallback = sleep_posix" "cycle_sleep ev_wet = sleep_posix"
  "READ_INTERVAL_SEC cfg_main6 = 300" "READ_INTERVAL_SEC cfg_long = 10000000000"
  by (simp_all add: ev_warm_def ev_read_fails_def ev_fallback_def ev_wet_def cfg_main6_def
      cfg_long_def)

lemma cycle_body_warm:
  "cycle_body cfg_main6 ev_warm app17 =
     \<lparr>sensor = Some 17, pending = [],
      committed = [SensorReading 10 92, AlertLog (snd (detect_anomaly_main6 10 92 (Some 30)))],
      printed = [EmailTriggered (snd (detect_anomaly_main6 10 92 (Some 30))), EmailError,
                 InfoLogged 10 92],
      slept = [], ticks = 1\<rparr>"
  by (simp add: cycle_body_def cycle_try_def cfg_main6_def ev_warm_def app17_def app0_def
      sv_good_def smtp_down_def get_weather_forecast_def external_temp_of_def anomaly_warm Let_def
      session_add_def session_commit_def send_email_alert_main6_def smtp_try_def print_def)

lemma cycle_warm:
  "cycle cfg_main6 ev_warm app17 =
     Inr \<lparr>sensor = Some 17, pending = [],
          committed = [SensorReading 10 92, AlertLog (snd (detect_anomaly_main6 10 92 (Some 30)))],
          printed = [EmailTriggered (snd (detect_anomaly_main6 10 92 (Some 30))), EmailError,
                     InfoLogged 10 92],
          slept = [300], ticks = 1\<rparr>"
  by (simp add: cycle_def time_sleep_def cycle_body_warm sample_sleep sleep_posix_samples)

lemma cycle_body_read_fails:
  "cycle_body cfg_main6 ev_read_fails app17 =
     \<lparr>sensor = Some 17, pending = [], committed = [],
      printed = [ErrorInLoop RuntimeError], slept = [], ticks = 1\<rparr>"
  by (simp add: cycle_body_def cycle_try_def cfg_main6_def ev_read_fails_def ev_warm_def app17_def
      app0_def sv_good_def session_rollback_def print_def)

lemma cycle_read_fails:
  "cycle cfg_main6 ev_read_fails app17 =
     Inr \<lparr>sensor = Some 17, pending = [], committed = [],
          printed = [ErrorInLoop RuntimeError], slept = [300], ticks = 1\<rparr>"
  by (simp add: cycle_def time_sleep_def cycle_body_read_fails sample_sleep sleep_posix_samples)

lemma background_reader_long: "background_reader cfg_long [ev_warm] app17 = Inl OverflowError"
  by (simp add: cycle_def time_sleep_def sample_sleep sleep_posix_samples)

lemma cycle_try_unavailable:
  assumes "sensor s = None" "\<forall>c\<in>set (candidates cfg). \<not> probe_ok ev (snd c)"
  shows "fst (cycle_try cfg ev s) = None
    \<and> sensor (snd (cycle_try cfg ev s)) = None
    \<and> committed (snd (cycle_try cfg ev s)) = committed s
    \<and> last (printed (snd (cycle_try cfg ev s))) = WarnNotInitialized"
proof -
  have "sensor (try_init_sensor cfg (probe_ok ev) s) = None"
    using assms probe_loop_all_fail [of "candidates cfg" "probe_ok ev" s]
    by (simp add: try_init_sensor_def)
  then show ?thesis using assms(1) by (simp add: cycle_try_def Let_def)
qed

lemma cycle_try_discovers:
  assumes "sensor s = None" "SENSOR_AVAILABLE cfg" "candidates cfg = pre @ c # post"
    "\<forall>x\<in>set pre. \<not> probe_ok ev (snd x)" "probe_ok ev (snd c)"
  shows "sensor (snd (cycle_try cfg ev s)) = Some (snd c)"
proof -
  have "sensor (try_init_sensor cfg (probe_ok ev) s) = Some (snd c)"
    using assms probe_loop_first_ok [of pre "probe_ok ev" c post s]
    by (simp add: try_init_sensor_def)
  then show ?thesis using assms(1)
    by (auto simp: cycle_try_def Let_def session_commit_def split: option.splits sum.splits)
qed

lemma cycle_try_no_rescan:
  "sensor s = Some d \<Longrightarrow> cycle_try cfg (ev\<lparr>probe_ok := p\<rparr>) s = cycle_try cfg ev s"
  by (simp add: cycle_try_def Let_def cong: sum.case_cong option.case_cong if_cong)

lemma cycle_body_no_rescan:
  "sensor s = Some d \<Longrightarrow> cycle_body cfg (ev\<lparr>probe_ok := p\<rparr>) s = cycle_body cfg ev s"
  by (simp add: cycle_body_def cycle_try_no_rescan cong: prod.case_cong option.case_cong)

lemma cycle_no_rescan:
  "sensor s = Some d \<Longrightarrow> cycle cfg (ev\<lparr>probe_ok := p\<rparr>) s = cycle cfg ev s"
  by (simp add: cycle_def cycle_body_no_rescan)

text \<open>
  C4, as the code has it. As long as \<open>time.sleep\<close> accepts the interval, no cycle ends the
  loop: after any number of cycles the loop is still running, each cycle having set the tick
  and slept the interval once. The sleep is in \<open>finally\<close>, outside every handler: in the
  first cycle in which \<open>time.sleep\<close> raises (an interval that is negative or too long for
  the platform), that exception leaves the loop. Up to the sleep, a cycle behaves as
  follows. When a stage of a cycle on the adopted device fails (a sensor read raises, a
  value is missing, the weather request raises, \<open>commit\<close> raises), the exception is printed
  last and nothing is written to the database. When no device can be adopted, the warning is
  printed last and nothing is written. When the reads and \<open>commit\<close> succeed and the weather
  request returns, be it with an error answer, the cycle prints exactly the notifier's two
  lines for an anomalous reading (the second one is the notifier's error when a step of the
  SMTP dialogue fails) and then the line of the reading, and it writes the reading (and the
  alert of an anomalous reading) whatever the notifier does: an error answer of the weather
  service is not printed, and neither it nor a notifier error ends the cycle early. A
  failed weather request and a missing key give an error answer.
\<close>

theorem background_reader_never_stops:
  "((\<forall>x\<in>set evs. cycle_sleep x (of_int (READ_INTERVAL_SEC cfg)) = None) \<longrightarrow>
      (\<exists>s'. background_reader cfg evs s = Inr s'
        \<and> slept s' = slept s @ replicate (length evs) (READ_INTERVAL_SEC cfg)
        \<and> ticks s' = ticks s + length evs))
    \<and> ((\<forall>x\<in>set pre. cycle_sleep x (of_int (READ_INTERVAL_SEC cfg)) = None)
        \<and> cycle_sleep ev (of_int (READ_INTERVAL_SEC cfg)) = Some x \<longrightarrow>
        background_reader cfg (pre @ ev # post) s = Inl x)
    \<and> (cycle_sleep ev (of_int (READ_INTERVAL_SEC cfg)) = None \<longrightarrow>
        cycle cfg ev s = Inr ((cycle_body cfg ev s)\<lparr>slept := slept s @ [READ_INTERVAL_SEC cfg]\<rparr>))
    \<and> (sensor s = Some d \<and> stage_failure cfg ev d = Some e \<longrightarrow>
        last (printed (cycle_body cfg ev s)) = ErrorInLoop e
        \<and> committed (cycle_body cfg ev s) = committed s)
    \<and> (sensor s = None \<and> (\<forall>c\<in>set (candidates cfg). \<not> probe_ok ev (snd c)) \<longrightarrow>
        last (printed (cycle_body cfg ev s)) = WarnNotInitialized
        \<and> committed (cycle_body cfg ev s) = committed s)
    \<and> (sensor s = Some d \<and> humidity_of ev d = Inr (Some h) \<and> temperature_of ev d = Inr (Some t)
        \<and> get_weather_forecast (api_key_usable cfg) (http (svc ev)) = Inr w
        \<and> commit_ok (svc ev) \<longrightarrow>
        printed (cycle_body cfg ev s) =
          printed s
          @ (if fst (detect_anomaly_main6 t h (external_temp_of w))
             then [EmailTriggered (snd (detect_anomaly_main6 t h (external_temp_of w))),
                   if \<not> creds_set cfg then EmailSkipped
                   else if connect_ok (smtp_env (svc ev)) \<and> starttls_ok (smtp_env (svc ev))
                          \<and> login_ok (smtp_env (svc ev)) \<and> sendmail_ok (smtp_env (svc ev))
                        then EmailSent
                   else EmailError]
             else [])
          @ [InfoLogged t h]
        \<and> committed (cycle_body cfg ev s) = committed s @ pending s @ [SensorReading t h]
            @ (if fst (detect_anomaly_main6 t h (external_temp_of w))
               then [AlertLog (snd (detect_anomaly_main6 t h (external_temp_of w)))]
               else []))
    \<and> get_weather_forecast k RequestException = Inr WeatherError
    \<and> get_weather_forecast k StatusOther = Inr WeatherError
    \<and> get_weather_forecast False r = Inr WeatherError"
proof -
  let ?s1 = "s\<lparr>ticks := Suc (ticks s)\<rparr>"
  let ?b = "cycle_body cfg ev s"
  note f = cycle_body_fields [of cfg ev s]
  have 1: "(\<forall>x\<in>set evs. cycle_sleep x (of_int (READ_INTERVAL_SEC cfg)) = None) \<longrightarrow>
      (\<exists>s'. background_reader cfg evs s = Inr s'
        \<and> slept s' = slept s @ replicate (length evs) (READ_INTERVAL_SEC cfg)
        \<and> ticks s' = ticks s + length evs)"
    using background_reader_total [of evs cfg s] by blast
  have 2: "(\<forall>x\<in>set pre. cycle_sleep x (of_int (READ_INTERVAL_SEC cfg)) = None)
        \<and> cycle_sleep ev (of_int (READ_INTERVAL_SEC cfg)) = Some x \<longrightarrow>
        background_reader cfg (pre @ ev # post) s = Inl x"
    using background_reader_sleep_raises [of pre cfg ev x post s] by blast
  have 3: "cycle_sleep ev (of_int (READ_INTERVAL_SEC cfg)) = None \<longrightarrow>
        cycle cfg ev s = Inr (?b\<lparr>slept := slept s @ [READ_INTERVAL_SEC cfg]\<rparr>)"
    using cycle_sleep_accepts [of ev cfg s] by blast
  have 4: "sensor s = Some d \<and> stage_failure cfg ev d = Some e \<longrightarrow>
        last (printed ?b) = ErrorInLoop e \<and> committed ?b = committed s"
    using f cycle_try_adopted [of ?s1 d cfg ev] cycle_try_failure_committed [of cfg ev ?s1 e]
    by simp
  have 5: "sensor s = None \<and> (\<forall>c\<in>set (candidates cfg). \<not> probe_ok ev (snd c)) \<longrightarrow>
        last (printed ?b) = WarnNotInitialized \<and> committed ?b = committed s"
    using f cycle_try_unavailable [of ?s1 cfg ev] by simp
  have 6: "sensor s = Some d \<and> humidity_of ev d = Inr (Some h) \<and> temperature_of ev d = Inr (Some t)
        \<and> get_weather_forecast (api_key_usable cfg) (http (svc ev)) = Inr w
        \<and> commit_ok (svc ev) \<longrightarrow>
        printed ?b =
          printed s
          @ (if fst (detect_anomaly_main6 t h (external_temp_of w))
             then [EmailTriggered (snd (detect_anomaly_main6 t h (external_temp_of w))),
                   if \<not> creds_set cfg then EmailSkipped
                   else if connect_ok (smtp_env (svc ev)) \<and> starttls_ok (smtp_env (svc ev))
                          \<and> login_ok (smtp_env (svc ev)) \<and> sendmail_ok (smtp_env (svc ev))
                        then EmailSent
                   else EmailError]
             else [])
          @ [InfoLogged t h]
        \<and> committed ?b = committed s @ pending s @ [SensorReading t h]
            @ (if fst (detect_anomaly_main6 t h (external_temp_of w))
               then [AlertLog (snd (detect_anomaly_main6 t h (external_temp_of w)))]
               else [])"
  proof
    assume a: "sensor s = Some d \<and> humidity_of ev d = Inr (Some h)
        \<and> temperature_of ev d = Inr (Some t)
        \<and> get_weather_forecast (api_key_usable cfg) (http (svc ev)) = Inr w
        \<and> commit_ok (svc ev)"
    have "sensor ?s1 = Some d" using a by simp
    from cycle_try_success_committed [OF this, of ev h t cfg w] a f
    show "printed ?b =
          printed s
          @ (if fst (detect_anomaly_main6 t h (external_temp_of w))
             then [EmailTriggered (snd (detect_anomaly_main6 t h (external_temp_of w))),
                   if \<not> creds_set cfg then EmailSkipped
                   else if connect_ok (smtp_env (svc ev)) \<and> starttls_ok (smtp_env (svc ev))
                          \<and> login_ok (smtp_env (svc ev)) \<and> sendmail_ok (smtp_env (svc ev))
                        then EmailSent
                   else EmailError]
             else [])
          @ [InfoLogged t h]
        \<and> committed ?b = committed s @ pending s @ [SensorReading t h]
            @ (if fst (detect_anomaly_main6 t h (external_temp_of w))
               then [AlertLog (snd (detect_anomaly_main6 t h (external_temp_of w)))]
               else [])"
      by simp
  qed
  have 7: "get_weather_forecast k RequestException = Inr WeatherError"
    "get_weather_forecast k StatusOther = Inr WeatherError"
    "get_weather_forecast False r = Inr WeatherError"
    by (simp_all add: get_weather_forecast_def)
  from 1 2 3 4 5 6 7 show ?thesis by (intro conjI)
qed

lemma stage_failure_read_fails: "stage_failure cfg_main6 ev_read_fails 17 = Some RuntimeError"
  by (simp add: stage_failure_def ev_read_fails_def ev_warm_def)

lemma weather_main6_good:
  "get_weather_forecast (api_key_usable cfg_main6) (http (svc ev_warm)) = Inr (Weather 30)"
  "get_weather_forecast (api_key_usable cfg_main6) (http (svc ev_wet)) = Inr (Weather 30)"
  by (simp_all add: get_weather_forecast_def cfg_main6_def ev_wet_def ev_warm_def sv_good_def)

lemma sample_apps:
  "sensor app17 = Some 17" "sensor app0 = None" "slept app17 = []" "slept app0 = []"
  "ticks app17 = 0" "committed app17 = []" "committed app0 = []" "pending app17 = []"
  "pending app0 = []" "printed app17 = []" "printed app0 = []"
  by (simp_all add: app17_def app0_def)

lemma ev_warm_fields:
  "humidity_of ev_warm 17 = Inr (Some 92)" "temperature_of ev_warm 17 = Inr (Some 10)"
  "commit_ok (svc ev_warm)" "creds_set cfg_main6" "connect_ok (smtp_env (svc ev_warm)) = False"
  "\<forall>c\<in>set (candidates cfg_main6). \<not> probe_ok ev_warm (snd c)"
  by (simp_all add: ev_warm_def sv_good_def cfg_main6_def smtp_down_def)

theorem background_reader_never_stops_witness:
  "(\<exists>s'. background_reader cfg_main6 [ev_read_fails, ev_warm] app17 = Inr s'
         \<and> slept s' = [300, 300] \<and> ticks s' = 2)
   \<and> cycle_sleep ev_warm (of_int (READ_INTERVAL_SEC cfg_long)) = Some OverflowError
   \<and> background_reader cfg_long [ev_warm] app17 = Inl OverflowError
   \<and> cycle cfg_main6 ev_warm app17
       = Inr ((cycle_body cfg_main6 ev_warm app17)\<lparr>slept := [300]\<rparr>)
   \<and> stage_failure cfg_main6 ev_read_fails 17 = Some RuntimeError
   \<and> last (printed (cycle_body cfg_main6 ev_read_fails app17)) = ErrorInLoop RuntimeError
   \<and> committed (cycle_body cfg_main6 ev_read_fails app17) = []
   \<and> last (printed (cycle_body cfg_main6 ev_warm app0)) = WarnNotInitialized
   \<and> committed (cycle_body cfg_main6 ev_warm app0) = []
   \<and> printed (cycle_body cfg_main6 ev_warm app17)
       = [EmailTriggered (snd (detect_anomaly_main6 10 92 (Some 30))), EmailError,
          InfoLogged 10 92]
   \<and> committed (cycle_body cfg_main6 ev_warm app17)
       = [SensorReading 10 92, AlertLog (snd (detect_anomaly_main6 10 92 (Some 30)))]"
proof -
  have l: "cycle_sleep ev_warm (of_int (READ_INTERVAL_SEC cfg_long)) = Some OverflowError"
    by (simp add: sample_sleep sleep_posix_samples)
  have k: "cycle_sleep ev_warm (of_int (READ_INTERVAL_SEC cfg_main6)) = None"
    "cycle_sleep ev_read_fails (of_int (READ_INTERVAL_SEC cfg_main6)) = None"
    by (simp_all add: sample_sleep sleep_posix_samples)
  note a = background_reader_never_stops [where evs = "[ev_read_fails, ev_warm]"
      and cfg = cfg_main6 and s = app17 and d = 17 and ev = ev_read_fails and e = RuntimeError]
  note b = background_reader_never_stops [where cfg = cfg_main6 and s = app0 and ev = ev_warm]
  note c = background_reader_never_stops [where cfg = cfg_main6 and s = app17 and d = 17
      and ev = ev_warm and h = 92 and t = 10 and w = "Weather 30"]
  note d = background_reader_never_stops [where cfg = cfg_long and s = app17 and ev = ev_warm
      and pre = "[]" and post = "[]" and x = OverflowError]
  have 1: "\<exists>s'. background_reader cfg_main6 [ev_read_fails, ev_warm] app17 = Inr s'
         \<and> slept s' = [300, 300] \<and> ticks s' = 2"
    using a [THEN conjunct1] k by (simp add: sample_sleep sample_apps numeral_2_eq_2)
  have 2: "background_reader cfg_long [ev_warm] app17 = Inl OverflowError"
    using d [THEN conjunct2, THEN conjunct1] l by simp
  have 3: "cycle cfg_main6 ev_warm app17
       = Inr ((cycle_body cfg_main6 ev_warm app17)\<lparr>slept := [300]\<rparr>)"
    using c [THEN conjunct2, THEN conjunct2, THEN conjunct1] k
    by (simp add: sample_sleep sample_apps)
  have 4: "last (printed (cycle_body cfg_main6 ev_read_fails app17)) = ErrorInLoop RuntimeError
      \<and> committed (cycle_body cfg_main6 ev_read_fails app17) = []"
    using a [THEN conjunct2, THEN conjunct2, THEN conjunct2, THEN conjunct1]
    by (simp add: sample_apps stage_failure_read_fails)
  have 5: "last (printed (cycle_body cfg_main6 ev_warm app0)) = WarnNotInitialized
      \<and> committed (cycle_body cfg_main6 ev_warm app0) = []"
    using b [THEN conjunct2, THEN conjunct2, THEN conjunct2, THEN conjunct2, THEN conjunct1]
      ev_warm_fields(6)
    by (simp add: sample_apps)
  have 6: "printed (cycle_body cfg_main6 ev_warm app17)
       = [EmailTriggered (snd (detect_anomaly_main6 10 92 (Some 30))), EmailError,
          InfoLogged 10 92]
      \<and> committed (cycle_body cfg_main6 ev_warm app17)
       = [SensorReading 10 92, AlertLog (snd (detect_anomaly_main6 10 92 (Some 30)))]"
    using c [THEN conjunct2, THEN conjunct2, THEN conjunct2, THEN conjunct2, THEN conjunct2,
        THEN conjunct1]
    by (simp add: sample_apps ev_warm_fields weather_main6_good external_temp_of_def
        anomaly_warm)
  from l 1 2 3 4 5 6 stage_failure_read_fails show ?thesis by (intro conjI) simp_all
qed

text \<open>
  C4 as stated fails twice. For a notifier error: with the SMTP server unreachable the
  error is printed inside the notifier, and the cycle goes on to write the reading and the
  alert and to print its last line. For the sleep: with an interval of ten billion seconds
  \<open>time.sleep\<close> raises \<open>OverflowError\<close> in \<open>finally\<close>, and the first cycle ends the loop.
\<close>

theorem notifier_error_cycle_counterexample:
  "cycle cfg_main6 ev_warm app17 =
     Inr \<lparr>sensor = Some 17, pending = [],
          committed = [SensorReading 10 92, AlertLog (snd (detect_anomaly_main6 10 92 (Some 30)))],
          printed = [EmailTriggered (snd (detect_anomaly_main6 10 92 (Some 30))), EmailError,
                     InfoLogged 10 92],
          slept = [300], ticks = 1\<rparr>
   \<and> connect_ok (smtp_env (svc ev_warm)) = False
   \<and> background_reader cfg_long [ev_warm] app17 = Inl OverflowError"
  using cycle_warm ev_warm_fields(5) background_reader_long by (intro conjI)

text \<open>
  C5, as the code has it. Once a device is adopted, every cycle leaves \<open>sensor\<close> as it is,
  whether the read succeeds or fails, and the cycle does not depend on what a probe would
  give: there is no scan. When no device is adopted and every candidate fails its probe,
  the cycle prints the warning, writes nothing and leaves \<open>sensor\<close> empty, so that the next
  cycle probes again. When the first candidates fail and a later one passes its probe,
  that one is adopted. The sleep that ends the cycle changes none of this: when
  \<open>time.sleep\<close> accepts the interval, the state after the cycle is the one before the sleep
  with the sleep recorded.
\<close>

theorem sensor_handle_kept:
  "(sensor s = Some d \<longrightarrow>
        sensor (cycle_body cfg ev s) = Some d
        \<and> cycle_body cfg (ev\<lparr>probe_ok := p\<rparr>) s = cycle_body cfg ev s
        \<and> cycle cfg (ev\<lparr>probe_ok := p\<rparr>) s = cycle cfg ev s)
    \<and> (sensor s = None \<and> (\<forall>c\<in>set (candidates cfg). \<not> probe_ok ev (snd c)) \<longrightarrow>
        sensor (cycle_body cfg ev s) = None \<and> committed (cycle_body cfg ev s) = committed s
        \<and> last (printed (cycle_body cfg ev s)) = WarnNotInitialized)
    \<and> (sensor s = None \<and> SENSOR_AVAILABLE cfg \<and> candidates cfg = pre @ c # post
        \<and> (\<forall>x\<in>set pre. \<not> probe_ok ev (snd x)) \<and> probe_ok ev (snd c) \<longrightarrow>
        sensor (cycle_body cfg ev s) = Some (snd c))
    \<and> (cycle_sleep ev (of_int (READ_INTERVAL_SEC cfg)) = None \<longrightarrow>
        (\<exists>s'. cycle cfg ev s = Inr s' \<and> sensor s' = sensor (cycle_body cfg ev s)
           \<and> committed s' = committed (cycle_body cfg ev s)
           \<and> printed s' = printed (cycle_body cfg ev s)))"
proof -
  let ?s1 = "s\<lparr>ticks := Suc (ticks s)\<rparr>"
  let ?b = "cycle_body cfg ev s"
  note f = cycle_body_fields [of cfg ev s]
  have a: "sensor s = Some d \<longrightarrow>
        sensor ?b = Some d
        \<and> cycle_body cfg (ev\<lparr>probe_ok := p\<rparr>) s = ?b
        \<and> cycle cfg (ev\<lparr>probe_ok := p\<rparr>) s = cycle cfg ev s"
    using f cycle_try_sensor_kept [of ?s1 d cfg ev]
      cycle_body_no_rescan [where s = s and d = d and cfg = cfg and ev = ev and p = p]
      cycle_no_rescan [where s = s and d = d and cfg = cfg and ev = ev and p = p]
    by simp
  have b: "sensor s = None \<and> (\<forall>c\<in>set (candidates cfg). \<not> probe_ok ev (snd c)) \<longrightarrow>
        sensor ?b = None \<and> committed ?b = committed s
        \<and> last (printed ?b) = WarnNotInitialized"
    using f cycle_try_unavailable [of ?s1 cfg ev] by simp
  have c: "sensor s = None \<and> SENSOR_AVAILABLE cfg \<and> candidates cfg = pre @ c # post
        \<and> (\<forall>x\<in>set pre. \<not> probe_ok ev (snd x)) \<and> probe_ok ev (snd c) \<longrightarrow>
        sensor ?b = Some (snd c)"
    using f cycle_try_discovers [of ?s1 cfg pre c post ev] by simp
  have d: "cycle_sleep ev (of_int (READ_INTERVAL_SEC cfg)) = None \<longrightarrow>
        (\<exists>s'. cycle cfg ev s = Inr s' \<and> sensor s' = sensor ?b
           \<and> committed s' = committed ?b \<and> printed s' = printed ?b)"
    using cycle_sleep_accepts [of ev cfg s] by simp
  from a b c d show ?thesis by (intro conjI)
qed

theorem sensor_handle_kept_witness:
  "sensor app17 = Some 17
   \<and> sensor (cycle_body cfg_main6 ev_read_fails app17) = Some 17
   \<and> sensor app0 = None
   \<and> sensor (cycle_body cfg_main6 ev_warm app0) = None
   \<and> last (printed (cycle_body cfg_main6 ev_warm app0)) = WarnNotInitialized
   \<and> candidates cfg_main6 = [(''ENV'', 17)] @ (''D4'', 4) # [(''D27'', 27), (''D22'', 22)]
   \<and> sensor (cycle_body cfg_main6 ev_fallback app0) = Some 4
   \<and> cycle_sleep ev_read_fails (of_int (READ_INTERVAL_SEC cfg_main6)) = None
   \<and> (\<exists>s'. cycle cfg_main6 ev_read_fails app17 = Inr s' \<and> sensor s' = Some 17)
   \<and> (\<exists>s'. cycle cfg_main6 ev_warm app0 = Inr s' \<and> sensor s' = None)
   \<and> (\<exists>s'. cycle cfg_main6 ev_fallback app0 = Inr s' \<and> sensor s' = Some 4)"
proof -
  have k: "cycle_sleep ev_warm (of_int (READ_INTERVAL_SEC cfg_main6)) = None"
    "cycle_sleep ev_read_fails (of_int (READ_INTERVAL_SEC cfg_main6)) = None"
    "cycle_sleep ev_fallback (of_int (READ_INTERVAL_SEC cfg_main6)) = None"
    by (simp_all add: sample_sleep sleep_posix_samples)
  have c: "candidates cfg_main6 = [(''ENV'', 17)] @ (''D4'', 4) # [(''D27'', 27), (''D22'', 22)]"
    by (simp add: candidates_main6)
  have 1: "sensor (cycle_body cfg_main6 ev_read_fails app17) = Some 17"
    using sensor_handle_kept [where cfg = cfg_main6 and s = app17 and d = 17
        and ev = ev_read_fails, THEN conjunct1]
    by (simp add: sample_apps)
  have 2: "sensor (cycle_body cfg_main6 ev_warm app0) = None
      \<and> last (printed (cycle_body cfg_main6 ev_warm app0)) = WarnNotInitialized"
    using sensor_handle_kept [where cfg = cfg_main6 and s = app0 and ev = ev_warm,
        THEN conjunct2, THEN conjunct1] ev_warm_fields(6)
    by (simp add: sample_apps)
  have 3: "sensor (cycle_body cfg_main6 ev_fallback app0) = Some 4"
    using sensor_handle_kept [where cfg = cfg_main6 and s = app0 and ev = ev_fallback
        and pre = "[(''ENV'', 17)]" and c = "(''D4'', 4)" and post = "[(''D27'', 27), (''D22'', 22)]",
        THEN conjunct2, THEN conjunct2, THEN conjunct1] c
    by (simp add: sample_apps ev_fallback_def ev_warm_def cfg_main6_def)
  have 4: "\<exists>s'. cycle cfg_main6 ev_read_fails app17 = Inr s' \<and> sensor s' = Some 17"
    using sensor_handle_kept [where cfg = cfg_main6 and s = app17 and ev = ev_read_fails,
        THEN conjunct2, THEN conjunct2, THEN conjunct2] k 1 by auto
  have 5: "\<exists>s'. cycle cfg_main6 ev_warm app0 = Inr s' \<and> sensor s' = None"
    using sensor_handle_kept [where cfg = cfg_main6 and s = app0 and ev = ev_warm,
        THEN conjunct2, THEN conjunct2, THEN conjunct2] k 2 by auto
  have 6: "\<exists>s'. cycle cfg_main6 ev_fallback app0 = Inr s' \<and> sensor s' = Some 4"
    using sensor_handle_kept [where cfg = cfg_main6 and s = app0 and ev = ev_fallback,
        THEN conjunct2, THEN conjunct2, THEN conjunct2] k 3 by auto
  from c k(2) 1 2 3 4 5 6 show ?thesis by (simp add: sample_apps)
qed

text \<open>
  C5 as stated fails after a read failure: the humidity read raises, the cycle prints the
  error and sleeps, and \<open>sensor\<close> still holds pin 17.
\<close>

theorem read_failure_keeps_handle_counterexample:
  "cycle cfg_main6 ev_read_fails app17 =
     Inr \<lparr>sensor = Some 17, pending = [], committed = [],
          printed = [ErrorInLoop RuntimeError], slept = [300], ticks = 1\<rparr>
   \<and> humidity_of ev_read_fails 17 = Inl RuntimeError"
  by (simp add: cycle_read_fails) (simp add: ev_read_fails_def)

lemma out_of_range_humidity_flagged:
  "h < 0 \<or> 100 < h \<Longrightarrow> fst (detect_anomaly t h e) \<and> fst (detect_anomaly_main6 t h e)"
  by (auto simp: fst_detect_anomaly fst_detect_anomaly_main6)

lemma str_float_150: "str_float 150 = ''150.0''"
  by code_simp

lemma reason_wet:
  "snd (detect_anomaly 3 150 None) = ''Humidity 150.0% is out of the acceptable range (90% - 95%).''"
  using snd_detect_anomaly_hum [of 3 None 150] by (simp add: NORMAL_TEMP_MAX_eq str_float_150)

lemma weather_delta: "get_weather_forecast (api_key_usable cfg_delta) x = Inr WeatherError"
  by (simp add: get_weather_forecast_def cfg_delta_def)

lemma sample_services:
  "smtp_env sv_good = smtp_good" "commit_ok sv_good" "rollback_ok sv_good"
  "smtp_env sv_dropped = smtp_dropped" "commit_ok sv_dropped" "rollback_ok sv_dropped"
  "creds_set cfg_delta"
  by (simp_all add: sv_good_def sv_dropped_def cfg_delta_def)

text \<open>
  C6, as the code has it. Whatever numbers the form or the sensor gives, the reading is
  written with exactly these numbers once the weather request returns, \<open>commit\<close> succeeds
  and (on the manual path) no exception leaves the notifier; neither the humidity nor the
  temperature is checked against a range. On the scheduled path the reading is written
  before the sleep that ends the cycle, and it is in the state after the cycle when
  \<open>time.sleep\<close> accepts the interval. A humidity outside \<open>[0, 100]\<close> makes the reading
  anomalous, so an alert is written with it.
\<close>

theorem readings_stored_without_range_check:
  "(get_weather_forecast (api_key_usable cfg) (http sv) = Inr w \<and> commit_ok sv
      \<and> (\<not> (creds_set cfg \<and> connect_ok (smtp_env sv) \<and> \<not> quit_ok (smtp_env sv))
          \<or> \<not> fst (detect_anomaly t h (external_temp_of w))) \<longrightarrow>
      fst (add_data cfg sv (Parsed t) (Parsed h) s) = JsonSuccess
      \<and> committed (snd (add_data cfg sv (Parsed t) (Parsed h) s)) =
          committed s @ pending s @ [SensorReading t h]
          @ (if fst (detect_anomaly t h (external_temp_of w))
             then [AlertLog (snd (detect_anomaly t h (external_temp_of w)))] else []))
   \<and> (sensor s = Some d
      \<and> humidity_of ev d = Inr (Some h) \<and> temperature_of ev d = Inr (Some t)
      \<and> get_weather_forecast (api_key_usable cfg) (http (svc ev)) = Inr w
      \<and> commit_ok (svc ev) \<longrightarrow>
      committed (cycle_body cfg ev s) = committed s @ pending s @ [SensorReading t h]
             @ (if fst (detect_anomaly_main6 t h (external_temp_of w))
                then [AlertLog (snd (detect_anomaly_main6 t h (external_temp_of w)))]
                else []))
   \<and> (cycle_sleep ev (of_int (READ_INTERVAL_SEC cfg)) = None \<longrightarrow>
        (\<exists>s'. cycle cfg ev s = Inr s' \<and> committed s' = committed (cycle_body cfg ev s)))
   \<and> (h < 0 \<or> 100 < h \<longrightarrow>
        fst (detect_anomaly t h e) \<and> fst (detect_anomaly_main6 t h e))"
proof -
  let ?s1 = "s\<lparr>ticks := Suc (ticks s)\<rparr>"
  have b: "sensor s = Some d
      \<and> humidity_of ev d = Inr (Some h) \<and> temperature_of ev d = Inr (Some t)
      \<and> get_weather_forecast (api_key_usable cfg) (http (svc ev)) = Inr w
      \<and> commit_ok (svc ev) \<longrightarrow>
      committed (cycle_body cfg ev s) = committed s @ pending s @ [SensorReading t h]
             @ (if fst (detect_anomaly_main6 t h (external_temp_of w))
                then [AlertLog (snd (detect_anomaly_main6 t h (external_temp_of w)))]
                else [])"
    using cycle_body_fields [of cfg ev s]
      cycle_try_success_committed [of ?s1 d ev h t cfg w] by simp
  have c: "cycle_sleep ev (of_int (READ_INTERVAL_SEC cfg)) = None \<longrightarrow>
        (\<exists>s'. cycle cfg ev s = Inr s' \<and> committed s' = committed (cycle_body cfg ev s))"
    using cycle_sleep_accepts [of ev cfg s] by simp
  show ?thesis
    using add_data_stores [of cfg sv w t h s] b c out_of_range_humidity_flagged [of h t e]
    by blast
qed

theorem readings_stored_without_range_check_witness:
  "get_weather_forecast (api_key_usable cfg_delta) (http sv_good) = Inr WeatherError
   \<and> commit_ok sv_good \<and> quit_ok (smtp_env sv_good)
   \<and> fst (add_data cfg_delta sv_good (Parsed 3) (Parsed 150) app0) = JsonSuccess
   \<and> committed (snd (add_data cfg_delta sv_good (Parsed 3) (Parsed 150) app0)) =
       [SensorReading 3 150, AlertLog (snd (detect_anomaly 3 150 None))]
   \<and> sensor app17 = Some 17
   \<and> humidity_of ev_wet 17 = Inr (Some 150) \<and> temperature_of ev_wet 17 = Inr (Some 3)
   \<and> committed (cycle_body cfg_main6 ev_wet app17) =
       [SensorReading 3 150, AlertLog (snd (detect_anomaly_main6 3 150 (Some 30)))]
   \<and> cycle_sleep ev_wet (of_int (READ_INTERVAL_SEC cfg_main6)) = None
   \<and> (\<exists>s'. cycle cfg_main6 ev_wet app17 = Inr s'
         \<and> committed s' =
             [SensorReading 3 150, AlertLog (snd (detect_anomaly_main6 3 150 (Some 30)))])
   \<and> (100::real) < 150 \<and> fst (detect_anomaly 3 150 None)"
proof -
  have g: "commit_ok sv_good" "quit_ok (smtp_env sv_good)" "commit_ok (svc ev_wet)"
    by (simp_all add: sv_good_def smtp_good_def ev_wet_def ev_warm_def)
  have k: "cycle_sleep ev_wet (of_int (READ_INTERVAL_SEC cfg_main6)) = None"
    by (simp add: sample_sleep sleep_posix_samples)
  have r: "humidity_of ev_wet 17 = Inr (Some 150)" "temperature_of ev_wet 17 = Inr (Some 3)"
    by (simp_all add: ev_wet_def)
  have f: "(100::real) < 150" by simp
  note t1 = readings_stored_without_range_check [where cfg = cfg_delta and sv = sv_good
      and w = WeatherError and t = 3 and h = 150 and s = app0 and e = None, THEN conjunct1]
  note t2 = readings_stored_without_range_check [where cfg = cfg_main6 and s = app17
      and d = 17 and ev = ev_wet and w = "Weather 30" and t = 3 and h = 150,
      THEN conjunct2, THEN conjunct1]
  note t3 = readings_stored_without_range_check [where cfg = cfg_main6 and s = app17
      and ev = ev_wet, THEN conjunct2, THEN conjunct2, THEN conjunct1]
  note t4 = readings_stored_without_range_check [where t = 3 and h = 150 and e = None,
      THEN conjunct2, THEN conjunct2, THEN conjunct2]
  have a: "fst (detect_anomaly 3 150 None)"
    using t4 f by simp
  have m: "fst (detect_anomaly_main6 3 150 (Some 30))"
    using out_of_range_humidity_flagged [of 150 3 "Some 30"] by simp
  have 1: "fst (add_data cfg_delta sv_good (Parsed 3) (Parsed 150) app0) = JsonSuccess
      \<and> committed (snd (add_data cfg_delta sv_good (Parsed 3) (Parsed 150) app0)) =
       [SensorReading 3 150, AlertLog (snd (detect_anomaly 3 150 None))]"
    using t1 g a by (simp add: weather_delta external_temp_of_def sample_apps)
  have 2: "committed (cycle_body cfg_main6 ev_wet app17) =
       [SensorReading 3 150, AlertLog (snd (detect_anomaly_main6 3 150 (Some 30)))]"
    using t2 g m by (simp add: weather_main6_good external_temp_of_def sample_apps r)
  have 3: "\<exists>s'. cycle cfg_main6 ev_wet app17 = Inr s'
         \<and> committed s' =
             [SensorReading 3 150, AlertLog (snd (detect_anomaly_main6 3 150 (Some 30)))]"
    using t3 k 2 by auto
  from 1 2 3 g k r f a weather_delta [of "http sv_good"] show ?thesis
    by (simp add: sample_apps)
qed

text \<open>
  C6 as stated fails on the manual path: a humidity of 150 is written to the database.
\<close>

theorem humidity_out_of_range_stored_counterexample:
  "fst (add_data cfg_delta sv_good (Parsed 3) (Parsed 150) app0) = JsonSuccess
   \<and> committed (snd (add_data cfg_delta sv_good (Parsed 3) (Parsed 150) app0)) =
       [SensorReading 3 150,
        AlertLog ''Humidity 150.0% is out of the acceptable range (90% - 95%).'']
   \<and> \<not> (150::real) \<le> 100"
proof -
  have a: "fst (detect_anomaly 3 150 None)"
    using out_of_range_humidity_flagged [of 150 3 None] by simp
  have "fst (add_data cfg_delta sv_good (Parsed 3) (Parsed 150) app0) = JsonSuccess
      \<and> pending (snd (add_data cfg_delta sv_good (Parsed 3) (Parsed 150) app0)) = []
      \<and> committed (snd (add_data cfg_delta sv_good (Parsed 3) (Parsed 150) app0)) =
        committed app0 @ pending app0 @ [SensorReading 3 150]
        @ (if fst (detect_anomaly 3 150 (external_temp_of WeatherError))
           then [AlertLog (snd (detect_anomaly 3 150 (external_temp_of WeatherError)))] else [])"
    by (rule add_data_stores) (simp_all add: weather_delta sample_services smtp_good_def)
  then show ?thesis
    by (simp add: external_temp_of_def a reason_wet app0_def)
qed

lemma anomaly_hot: "fst (detect_anomaly 10 92 None)"
  by (simp add: fst_detect_anomaly NORMAL_TEMP_MAX_eq)

text \<open>
  C9 against \<open>delta.py\<close>. The SMTP server accepts the connection and then drops it:
  \<open>login\<close> raises, the handler prints the error, and \<open>server.quit()\<close> in \<open>finally\<close> raises as
  well. That exception leaves \<open>send_email_alert\<close> of \<open>delta.py\<close>; \<open>add_data\<close> rolls back and
  answers with the error, and neither the reading nor the alert is written. The function of
  \<open>main5.py\<close> and \<open>main6.py\<close> only prints the error. With a working server the same
  request writes both rows.
\<close>

theorem notifier_quit_failure_blocks_commit:
  "fst (send_email_alert True smtp_dropped msg s) = Some SMTPException
   \<and> printed (send_email_alert_main6 True smtp_dropped msg s)
       = printed s @ [EmailTriggered msg, EmailError]
   \<and> add_data cfg_delta sv_dropped (Parsed 10) (Parsed 92) app0 =
       (JsonError SMTPException,
        app0\<lparr>printed := [EmailTriggered (snd (detect_anomaly 10 92 None)), EmailError]\<rparr>)
   \<and> add_data cfg_delta sv_good (Parsed 10) (Parsed 92) app0 =
       (JsonSuccess,
        app0\<lparr>committed := [SensorReading 10 92, AlertLog (snd (detect_anomaly 10 92 None))],
             printed := [EmailTriggered (snd (detect_anomaly 10 92 None)), EmailSent]\<rparr>)"
proof -
  have 1: "fst (send_email_alert True smtp_dropped msg s) = Some SMTPException"
    by (simp add: send_email_alert_split smtp_dropped_def)
  have 2: "printed (send_email_alert_main6 True smtp_dropped msg s)
       = printed s @ [EmailTriggered msg, EmailError]"
    by (simp add: send_email_alert_main6_def smtp_try_def smtp_dropped_def Let_def)
  have 3: "add_data cfg_delta sv_dropped (Parsed 10) (Parsed 92) app0 =
       (JsonError SMTPException,
        app0\<lparr>printed := [EmailTriggered (snd (detect_anomaly 10 92 None)), EmailError]\<rparr>)"
    by (simp add: add_data_def add_data_try_def float_field_def weather_delta
        external_temp_of_def anomaly_hot Let_def send_email_alert_def smtp_try_def
        sample_services smtp_dropped_def session_rollback_def
        session_add_def print_def app0_def)
  have 4: "add_data cfg_delta sv_good (Parsed 10) (Parsed 92) app0 =
       (JsonSuccess,
        app0\<lparr>committed := [SensorReading 10 92, AlertLog (snd (detect_anomaly 10 92 None))],
             printed := [EmailTriggered (snd (detect_anomaly 10 92 None)), EmailSent]\<rparr>)"
    by (simp add: add_data_def add_data_try_def float_field_def weather_delta
        external_temp_of_def anomaly_hot Let_def send_email_alert_def smtp_try_def
        sample_services smtp_good_def session_commit_def
        session_add_def print_def app0_def)
  from 1 2 3 4 show ?thesis by blast
qed

end
